theory Spec2Isabelle
  imports Complex_Main "HOL-Library.Multiset" "HOL-Library.Char_ord" "HOL-Library.List_Lexorder"
begin

section \<open>Data model\<close>

text \<open>
  The program (\<^verbatim>\<open>graph.py\<close>) works on pandas data frames. A data frame is modelled
  as the list of its rows, in frame order; a row is a record of the seven columns that
  \<^verbatim>\<open>read_csv(usecols=...)\<close> keeps. A cell that pandas holds as NaN / NaT is \<open>None\<close>.
  Floating-point numbers are modelled as reals (rounding is not modelled). A parsed date is
  the number of days since 1970-01-01 (a Thursday); the time of day is not modelled.
  The type parameter of a row is the type of its Date cell: the text of the cell before
  \<^verbatim>\<open>pd.to_datetime\<close>, a day number after it.
\<close>

record 'd row =
  Date :: 'd
  Workout_Name :: "string option"
  Exercise_Name :: "string option"
  Weight :: "real option"
  Reps :: "real option"
  Sets :: "real option"
  Notes :: "string option"

text \<open>
  The input of \<^verbatim>\<open>read_data\<close> is the file as the CSV tokenizer sees it: the names in the header
  line and the data rows. The numeric columns are taken to hold numbers or to be empty.
\<close>

record csv_file =
  columns :: "string list"
  records :: "string option row list"

text \<open>
  Exceptions that end a run. \<open>SchemaError\<close> is the \<^verbatim>\<open>ValueError\<close> of \<^verbatim>\<open>read_csv\<close> when a
  name of \<^verbatim>\<open>usecols\<close> is not in the header, \<open>ParseError\<close> the failure of \<^verbatim>\<open>pd.to_datetime\<close> on a
  cell, \<open>IndexError\<close> the one of \<^verbatim>\<open>.iloc[0]\<close> on an empty frame, \<open>TypeError\<close> the one of
  \<^verbatim>\<open>np.polyfit\<close> on an empty vector, \<open>LinAlgError\<close> a failure inside the least-squares solver.
\<close>

datatype error = SchemaError | ParseError | IndexError | TypeError | LinAlgError

section \<open>Column operations of pandas\<close>

definition dropna_col :: "'a option list \<Rightarrow> 'a list" where
  "dropna_col col = [x. Some x \<leftarrow> col]"

text \<open>\<^verbatim>\<open>Series.max()\<close> and \<^verbatim>\<open>Series.min()\<close> skip missing cells; with no cell left the result is missing.\<close>

definition max_skipna :: "('a::linorder) option list \<Rightarrow> 'a option" where
  "max_skipna col = (case dropna_col col of [] \<Rightarrow> None | x # xs \<Rightarrow> Some (Max (set (x # xs))))"

definition min_skipna :: "('a::linorder) option list \<Rightarrow> 'a option" where
  "min_skipna col = (case dropna_col col of [] \<Rightarrow> None | x # xs \<Rightarrow> Some (Min (set (x # xs))))"

text \<open>\<^verbatim>\<open>Series.median()\<close>: the middle of the sorted present values, the mean of the two middle
  ones when their number is even, missing when there is none.\<close>

definition median :: "real option list \<Rightarrow> real option" where
  "median col =
     (let s = sort (dropna_col col); n = length s in
      if n = 0 then None
      else if odd n then Some (s ! (n div 2))
      else Some ((s ! (n div 2 - 1) + s ! (n div 2)) / 2))"

definition fillna :: "'a option \<Rightarrow> 'a option \<Rightarrow> 'a option" where
  "fillna v c = (case c of None \<Rightarrow> v | Some x \<Rightarrow> Some x)"

text \<open>\<^verbatim>\<open>Series.nunique()\<close> counts the distinct present values.\<close>

definition nunique :: "'a option list \<Rightarrow> nat" where
  "nunique col = length (remdups (dropna_col col))"

text \<open>Arithmetic on cells: a missing operand gives a missing result.\<close>

definition nan_add :: "real option \<Rightarrow> real option \<Rightarrow> real option" where
  "nan_add a b = (case (a, b) of (Some x, Some y) \<Rightarrow> Some (x + y) | _ \<Rightarrow> None)"

definition nan_sub :: "real option \<Rightarrow> real option \<Rightarrow> real option" where
  "nan_sub a b = (case (a, b) of (Some x, Some y) \<Rightarrow> Some (x - y) | _ \<Rightarrow> None)"

definition nan_mul :: "real option \<Rightarrow> real option \<Rightarrow> real option" where
  "nan_mul a b = (case (a, b) of (Some x, Some y) \<Rightarrow> Some (x * y) | _ \<Rightarrow> None)"

text \<open>\<^verbatim>\<open>Series.diff()\<close>: each cell minus the one before it; the first cell is missing.\<close>

definition diff :: "real option list \<Rightarrow> real option list" where
  "diff col = (case col of [] \<Rightarrow> [] | x # rest \<Rightarrow> None # map2 (\<lambda>prev cur. nan_sub cur prev) col rest)"

text \<open>\<^verbatim>\<open>Series.cumsum()\<close> of a Boolean column: the running number of \<open>True\<close> cells.\<close>

fun cumsum_from :: "int \<Rightarrow> bool list \<Rightarrow> int list" where
  "cumsum_from acc [] = []"
| "cumsum_from acc (b # bs) =
     (acc + (if b then 1 else 0)) # cumsum_from (acc + (if b then 1 else 0)) bs"

definition cumsum :: "bool list \<Rightarrow> int list" where
  "cumsum bs = cumsum_from 0 bs"

text \<open>\<^verbatim>\<open>DataFrame.drop_duplicates()\<close> keeps the first of the rows that are equal in every column
  (missing cells count as equal).\<close>

fun drop_duplicates :: "'a list \<Rightarrow> 'a list" where
  "drop_duplicates [] = []"
| "drop_duplicates (x # xs) = x # drop_duplicates (filter (\<lambda>y. y \<noteq> x) xs)"

section \<open>read\_data\<close>

definition usecols :: "string list" where
  "usecols = [''Date'', ''Workout Name'', ''Exercise Name'', ''Weight'', ''Reps'', ''Sets'', ''Notes'']"

definition read_csv :: "csv_file \<Rightarrow> error + string option row list" where
  "read_csv f = (if list_all (\<lambda>c. c \<in> set (columns f)) usecols then Inr (records f) else Inl SchemaError)"

text \<open>\<^verbatim>\<open>df['Weight'].fillna(df['Weight'].median(), inplace=True)\<close> and the two lines after it, with
  the in-place semantics the code relies on (pandas before 3.0, without copy-on-write): the
  column of the frame itself is changed. Filling with a missing median changes nothing.\<close>

definition fillna_Weight :: "'d row list \<Rightarrow> 'd row list" where
  "fillna_Weight df = (let m = median (map Weight df) in map (\<lambda>r. r\<lparr>Weight := fillna m (Weight r)\<rparr>) df)"

definition fillna_Reps :: "'d row list \<Rightarrow> 'd row list" where
  "fillna_Reps df = (let m = median (map Reps df) in map (\<lambda>r. r\<lparr>Reps := fillna m (Reps r)\<rparr>) df)"

definition fillna_Sets :: "'d row list \<Rightarrow> 'd row list" where
  "fillna_Sets df = (let m = median (map Sets df) in map (\<lambda>r. r\<lparr>Sets := fillna m (Sets r)\<rparr>) df)"

text \<open>\<^verbatim>\<open>df['Date'] = pd.to_datetime(df['Date'])\<close>. The parser of one cell is a parameter \<open>parse\<close>
  (\<open>None\<close>: the text is no date); an empty cell becomes NaT, an unparseable one raises.\<close>

definition with_Date :: "'e \<Rightarrow> 'd row \<Rightarrow> 'e row" where
  "with_Date d r = \<lparr>Date = d, Workout_Name = Workout_Name r, Exercise_Name = Exercise_Name r,
     Weight = Weight r, Reps = Reps r, Sets = Sets r, Notes = Notes r\<rparr>"

definition to_datetime_cell :: "(string \<Rightarrow> int option) \<Rightarrow> string option \<Rightarrow> error + int option" where
  "to_datetime_cell parse c =
     (case c of None \<Rightarrow> Inr None
      | Some s \<Rightarrow> (case parse s of None \<Rightarrow> Inl ParseError | Some d \<Rightarrow> Inr (Some d)))"

fun to_datetime :: "(string \<Rightarrow> int option) \<Rightarrow> string option row list \<Rightarrow> error + int option row list" where
  "to_datetime parse [] = Inr []"
| "to_datetime parse (r # rs) =
     (case to_datetime_cell parse (Date r) of
        Inl e \<Rightarrow> Inl e
      | Inr d \<Rightarrow> (case to_datetime parse rs of Inl e \<Rightarrow> Inl e | Inr rs' \<Rightarrow> Inr (with_Date d r # rs')))"

text \<open>\<^verbatim>\<open>df.sort_values(by='Date', inplace=True)\<close> is called with the default
  \<^verbatim>\<open>kind='quicksort'\<close>, which pandas documents as not stable, and the default
  \<^verbatim>\<open>na_position='last'\<close>. The sorting routine itself is not part of the program. What the call
  guarantees is modelled as a relation between the frame and a result: the same rows, ascending
  by Date, rows without a date last. The relation admits every order of rows with equal dates;
  it does not say which of them the library produces on a given input, so it supports
  statements about all results and none about the order of ties.\<close>

definition date_le :: "int option \<Rightarrow> int option \<Rightarrow> bool" where
  "date_le a b = (case b of None \<Rightarrow> True | Some y \<Rightarrow> (case a of None \<Rightarrow> False | Some x \<Rightarrow> x \<le> y))"

definition sort_values_Date :: "int option row list \<Rightarrow> int option row list \<Rightarrow> bool" where
  "sort_values_Date df out = (mset out = mset df \<and> sorted_wrt (\<lambda>a b. date_le (Date a) (Date b)) out)"

text \<open>The frame of \<^verbatim>\<open>read_data\<close> before the sort (lines 11 to 22).\<close>

definition read_data_unsorted :: "(string \<Rightarrow> int option) \<Rightarrow> csv_file \<Rightarrow> error + int option row list" where
  "read_data_unsorted parse f =
     (case read_csv f of
        Inl e \<Rightarrow> Inl e
      | Inr df \<Rightarrow> to_datetime parse (drop_duplicates (fillna_Sets (fillna_Reps (fillna_Weight df)))))"

text \<open>\<open>read_data parse f res\<close>: \<open>res\<close> is a possible outcome of \<^verbatim>\<open>read_data\<close> on the file.\<close>

definition read_data :: "(string \<Rightarrow> int option) \<Rightarrow> csv_file \<Rightarrow> error + int option row list \<Rightarrow> bool" where
  "read_data parse f res =
     (case read_data_unsorted parse f of
        Inl e \<Rightarrow> res = Inl e
      | Inr df \<Rightarrow> (case res of Inl e \<Rightarrow> False | Inr out \<Rightarrow> sort_values_Date df out))"

section \<open>Metric functions\<close>

definition calc_best_set :: "'d row list \<Rightarrow> real option list" where
  "calc_best_set grp = map (\<lambda>r. nan_mul (Weight r) (Reps r)) grp"

definition calc_total_volume :: "'d row list \<Rightarrow> real option list" where
  "calc_total_volume grp = map (\<lambda>r. nan_mul (nan_mul (Weight r) (Reps r)) (Sets r)) grp"

definition calc_max_consecutive_reps :: "'d row list \<Rightarrow> int list" where
  "calc_max_consecutive_reps grp =
     map2 (\<lambda>c r. c * (if r = Some 1 then 1 else 0))
       (cumsum (map (\<lambda>d. d \<noteq> Some 1) (diff (map Reps grp))))
       (map Reps grp)"

definition calc_one_rep_max :: "'d row list \<Rightarrow> real option list" where
  "calc_one_rep_max grp = map (\<lambda>r. nan_mul (Weight r) (nan_add (Some 1) (nan_mul (Some (333 / 10000)) (Reps r)))) grp"

section \<open>plot\_metric\_over\_time\<close>

text \<open>\<^verbatim>\<open>df.groupby('Exercise Name')\<close>: one group per distinct present name, in ascending order of
  the names; rows without a name belong to no group.\<close>

definition groupby_Exercise_Name :: "'d row list \<Rightarrow> (string \<times> 'd row list) list" where
  "groupby_Exercise_Name df =
     map (\<lambda>k. (k, filter (\<lambda>r. Exercise_Name r = Some k) df))
       (sort (remdups (dropna_col (map Exercise_Name df))))"

definition popular_exercises :: "'d row list \<Rightarrow> int \<Rightarrow> string list" where
  "popular_exercises df min_exercises =
     [k. (k, g) \<leftarrow> groupby_Exercise_Name df, int (length g) \<ge> min_exercises]"

definition popular_groups :: "'d row list \<Rightarrow> int \<Rightarrow> 'd row list list" where
  "popular_groups df min_exercises =
     [g. (k, g) \<leftarrow> groupby_Exercise_Name df, k \<in> set (popular_exercises df min_exercises)]"

text \<open>Lines 55 to 61: rows without weight or reps are dropped; then, when \<^verbatim>\<open>last_x_days\<close> is
  truthy (given and not 0), only the rows of the last days before the group's latest date stay.\<close>

definition dropna_Weight_Reps :: "'d row list \<Rightarrow> 'd row list" where
  "dropna_Weight_Reps grp = filter (\<lambda>r. Weight r \<noteq> None \<and> Reps r \<noteq> None) grp"

definition last_x_days_filter :: "int \<Rightarrow> int option row list \<Rightarrow> int option row list" where
  "last_x_days_filter days grp =
     (case max_skipna (map Date grp) of
        None \<Rightarrow> []
      | Some max_date \<Rightarrow> filter (\<lambda>r. case Date r of None \<Rightarrow> False | Some t \<Rightarrow> t \<ge> max_date - days) grp)"

definition truthy :: "int option \<Rightarrow> bool" where
  "truthy v = (case v of None \<Rightarrow> False | Some n \<Rightarrow> n \<noteq> 0)"

definition retained :: "int option \<Rightarrow> int option row list \<Rightarrow> int option row list" where
  "retained last_x_days grp =
     (let grp1 = dropna_Weight_Reps grp in
      case last_x_days of
        None \<Rightarrow> grp1
      | Some days \<Rightarrow> if truthy (Some days) then last_x_days_filter days grp1 else grp1)"

text \<open>\<^verbatim>\<open>group.groupby('Date')[metric_name].max()\<close> on the rows paired with their metric values:
  one entry per distinct present date, ascending, holding the largest present value.\<close>

definition groupby_Date_max :: "(int option \<times> real option) list \<Rightarrow> (int \<times> real option) list" where
  "groupby_Date_max col =
     map (\<lambda>d. (d, max_skipna [v. (t, v) \<leftarrow> col, t = Some d]))
       (sort (remdups (dropna_col (map fst col))))"

definition max_metric :: "(int option row list \<Rightarrow> real option list) \<Rightarrow> int option row list \<Rightarrow> (int \<times> real option) list" where
  "max_metric metric_func grp = groupby_Date_max (zip (map Date grp) (metric_func grp))"

text \<open>A figure holds the lines drawn into it by \<^verbatim>\<open>plt.plot\<close>, in order, and its texts.\<close>

record plot_line =
  line_x :: "int list"
  line_y :: "real option list"
  line_label :: "string option"
  line_color :: "string option"

record figure =
  lines :: "plot_line list"
  title :: string
  xlabel :: string
  ylabel :: string

text \<open>\<^verbatim>\<open>np.polyfit(x, y, 1)\<close> raises on an empty vector; otherwise it hands the points to a
  least-squares solver, which is a parameter \<open>lstsq\<close> here and returns slope and intercept.
  \<^verbatim>\<open>np.polyval\<close> evaluates the line.\<close>

definition np_polyfit :: "(real list \<Rightarrow> real option list \<Rightarrow> error + real option \<times> real option) \<Rightarrow>
    real list \<Rightarrow> real option list \<Rightarrow> error + real option \<times> real option" where
  "np_polyfit lstsq x y = (if x = [] then Inl TypeError else lstsq x y)"

definition np_polyval :: "real option \<times> real option \<Rightarrow> real list \<Rightarrow> real option list" where
  "np_polyval p x = map (\<lambda>t. nan_add (nan_mul (fst p) (Some t)) (snd p)) x"

definition fstr :: "string option \<Rightarrow> string" where
  "fstr c = (case c of None \<Rightarrow> ''nan'' | Some s \<Rightarrow> s)"

text \<open>The body of the loop over the groups (lines 55 to 81), as the result of the call: the
  figure when the body ends, the exception when it raises (what pyplot holds then is
  \<open>plot_group_pyplot\<close> below). \<^verbatim>\<open>metric_name\<close> is taken not to be the name of one of the
  seven columns, and \<^verbatim>\<open>metric_func\<close> to return one value per row.\<close>

definition plot_group :: "(real list \<Rightarrow> real option list \<Rightarrow> error + real option \<times> real option) \<Rightarrow>
    string \<Rightarrow> (int option row list \<Rightarrow> real option list) \<Rightarrow> int option \<Rightarrow> int option row list \<Rightarrow> error + figure" where
  "plot_group lstsq metric_name metric_func last_x_days grp0 =
     (let grp = retained last_x_days grp0;
          mm = max_metric metric_func grp;
          x = map real_of_int (map fst mm)
      in case grp of
           [] \<Rightarrow> Inl IndexError
         | r # rs \<Rightarrow>
             (case np_polyfit lstsq x (map snd mm) of
                Inl e \<Rightarrow> Inl e
              | Inr p \<Rightarrow>
                  Inr \<lparr>lines =
                         [\<lparr>line_x = map fst mm, line_y = map snd mm,
                           line_label = Some (fstr (Exercise_Name r) @ '' '' @ metric_name), line_color = None\<rparr>,
                          \<lparr>line_x = map fst mm, line_y = np_polyval p x,
                           line_label = None, line_color = Some ''red''\<rparr>],
                       title = fstr (Exercise_Name r) @ '' '' @ metric_name @ '' Over Time'',
                       xlabel = ''Date'', ylabel = metric_name\<rparr>))"

fun plot_groups :: "(real list \<Rightarrow> real option list \<Rightarrow> error + real option \<times> real option) \<Rightarrow>
    string \<Rightarrow> (int option row list \<Rightarrow> real option list) \<Rightarrow> int option \<Rightarrow> int option row list list \<Rightarrow> error + figure list" where
  "plot_groups lstsq metric_name metric_func last_x_days [] = Inr []"
| "plot_groups lstsq metric_name metric_func last_x_days (g # gs) =
     (case plot_group lstsq metric_name metric_func last_x_days g of
        Inl e \<Rightarrow> Inl e
      | Inr fig \<Rightarrow>
          (case plot_groups lstsq metric_name metric_func last_x_days gs of
             Inl e \<Rightarrow> Inl e
           | Inr figs \<Rightarrow> Inr (fig # figs)))"

definition plot_metric_over_time :: "(real list \<Rightarrow> real option list \<Rightarrow> error + real option \<times> real option) \<Rightarrow>
    int option row list \<Rightarrow> string \<Rightarrow> (int option row list \<Rightarrow> real option list) \<Rightarrow> int \<Rightarrow> int option \<Rightarrow> error + figure list" where
  "plot_metric_over_time lstsq df metric_name metric_func min_exercises last_x_days =
     plot_groups lstsq metric_name metric_func last_x_days (popular_groups df min_exercises)"

text \<open>The same loop body with the state of pyplot made explicit: the figure of the group as
  pyplot holds it when the body ends or raises, and the exception if one is raised.
  \<^verbatim>\<open>plt.figure\<close> (line 74) creates the figure before anything can fail; the label of the first
  \<^verbatim>\<open>plt.plot\<close> (line 75) is evaluated before the series is drawn; the fit (line 76) is computed
  before the second \<^verbatim>\<open>plt.plot\<close>; title and axis labels are set last.\<close>

definition empty_figure :: figure where
  "empty_figure = \<lparr>lines = [], title = [], xlabel = [], ylabel = []\<rparr>"

definition plot_group_pyplot :: "(real list \<Rightarrow> real option list \<Rightarrow> error + real option \<times> real option) \<Rightarrow>
    string \<Rightarrow> (int option row list \<Rightarrow> real option list) \<Rightarrow> int option \<Rightarrow> int option row list \<Rightarrow>
    figure \<times> error option" where
  "plot_group_pyplot lstsq metric_name metric_func last_x_days grp0 =
     (let grp = retained last_x_days grp0;
          mm = max_metric metric_func grp;
          x = map real_of_int (map fst mm)
      in case grp of
           [] \<Rightarrow> (empty_figure, Some IndexError)
         | r # rs \<Rightarrow>
             (case np_polyfit lstsq x (map snd mm) of
                Inl e \<Rightarrow>
                  (empty_figure\<lparr>lines :=
                     [\<lparr>line_x = map fst mm, line_y = map snd mm,
                       line_label = Some (fstr (Exercise_Name r) @ '' '' @ metric_name), line_color = None\<rparr>]\<rparr>,
                   Some e)
              | Inr p \<Rightarrow>
                  (\<lparr>lines =
                      [\<lparr>line_x = map fst mm, line_y = map snd mm,
                        line_label = Some (fstr (Exercise_Name r) @ '' '' @ metric_name), line_color = None\<rparr>,
                       \<lparr>line_x = map fst mm, line_y = np_polyval p x,
                        line_label = None, line_color = Some ''red''\<rparr>],
                    title = fstr (Exercise_Name r) @ '' '' @ metric_name @ '' Over Time'',
                    xlabel = ''Date'', ylabel = metric_name\<rparr>,
                   None)))"

section \<open>plot\_workouts\_per\_week\<close>

text \<open>\<^verbatim>\<open>pd.Grouper(key='Date', freq='W')\<close> puts a date into the week that ends on the first Sunday
  on or after it, and labels the week by that Sunday. Day 3 (1970-01-04) is a Sunday. The
  grouping has one bin for every week from the first to the last date's week, also for a week
  without rows.\<close>

definition week_end :: "int \<Rightarrow> int" where
  "week_end d = d + (3 - d) mod 7"

definition groupby_week_nunique :: "int option row list \<Rightarrow> (int \<times> nat) list" where
  "groupby_week_nunique df =
     (case (min_skipna (map Date df), max_skipna (map Date df)) of
        (Some lo, Some hi) \<Rightarrow>
          map (\<lambda>k. (week_end lo + 7 * int k,
                    nunique [Workout_Name r. r \<leftarrow> df, map_option week_end (Date r) = Some (week_end lo + 7 * int k)]))
            [0 ..< nat ((week_end hi - week_end lo) div 7) + 1]
      | _ \<Rightarrow> [])"

definition df_last_x_weeks :: "int option row list \<Rightarrow> int \<Rightarrow> int option row list" where
  "df_last_x_weeks df last_x_weeks =
     (case max_skipna (map Date df) of
        None \<Rightarrow> []
      | Some end_date \<Rightarrow>
          filter (\<lambda>r. case Date r of None \<Rightarrow> False
                      | Some t \<Rightarrow> t \<ge> end_date - 7 * last_x_weeks \<and> t \<le> end_date) df)"

text \<open>The bars handed to \<^verbatim>\<open>plt.bar\<close>: week label and number of distinct workout names.\<close>

definition plot_workouts_per_week :: "int option row list \<Rightarrow> int \<Rightarrow> (int \<times> nat) list" where
  "plot_workouts_per_week df last_x_weeks = groupby_week_nunique (df_last_x_weeks df last_x_weeks)"

section \<open>The streak rule of the specification\<close>

text \<open>The rule as the specification words it: position \<open>j\<close> starts a new streak when it is the
  first one or when \<open>reps[j] != reps[j-1] + 1\<close> (a comparison with a missing value is true);
  \<open>streak_id[i]\<close> counts the positions up to \<open>i\<close> that start a streak.\<close>

definition spec_starts_streak :: "real option list \<Rightarrow> nat \<Rightarrow> bool" where
  "spec_starts_streak reps j =
     (j = 0 \<or> (case (reps ! j, reps ! (j - 1)) of (Some a, Some b) \<Rightarrow> a \<noteq> b + 1 | _ \<Rightarrow> True))"

definition spec_streak_id :: "real option list \<Rightarrow> nat \<Rightarrow> int" where
  "spec_streak_id reps i = int (length (filter (spec_starts_streak reps) [0 ..< Suc i]))"

section \<open>Example data\<close>

definition mk_row :: "int \<Rightarrow> string \<Rightarrow> string \<Rightarrow> real \<Rightarrow> real \<Rightarrow> real \<Rightarrow> int option row" where
  "mk_row d w e wt rp st = \<lparr>Date = Some d, Workout_Name = Some w, Exercise_Name = Some e,
     Weight = Some wt, Reps = Some rp, Sets = Some st, Notes = None\<rparr>"

definition reps_row :: "real option \<Rightarrow> int option row" where
  "reps_row r = \<lparr>Date = None, Workout_Name = None, Exercise_Name = None,
     Weight = None, Reps = r, Sets = None, Notes = None\<rparr>"

text \<open>A least-squares solver in exact arithmetic for the examples: the regression line of two
  or more points, a horizontal line through a single point.\<close>

definition lstsq_example :: "real list \<Rightarrow> real option list \<Rightarrow> error + real option \<times> real option" where
  "lstsq_example x y =
     (case those y of
        None \<Rightarrow> Inl LinAlgError
      | Some ys \<Rightarrow>
          (let n = real (length x); sx = sum_list x; sy = sum_list ys;
               sxx = sum_list (map (\<lambda>t. t * t) x); sxy = sum_list (map2 (*) x ys);
               den = n * sxx - sx * sx
           in if den = 0 then Inr (Some 0, Some (sy / n))
              else Inr (Some ((n * sxy - sx * sy) / den),
                        Some ((sy - (n * sxy - sx * sy) / den * sx) / n))))"

text \<open>Three sets of bench press: two on day 10 (one-rep-max values 120 and 135), one on day 12.\<close>

definition bench_df :: "int option row list" where
  "bench_df = [mk_row 10 ''A'' ''Bench'' 120 0 1, mk_row 10 ''A'' ''Bench'' 135 0 1,
               mk_row 12 ''B'' ''Bench'' 100 5 1]"

section \<open>Auxiliary definitions for read\_data\<close>

text \<open>One result that \<^verbatim>\<open>sort_values\<close> may return: the stable one (\<^verbatim>\<open>kind='stable'\<close>).\<close>

definition stable_sort_Date :: "int option row list \<Rightarrow> int option row list" where
  "stable_sort_Date df =
     sort_key (\<lambda>r. the (Date r)) (filter (\<lambda>r. Date r \<noteq> None) df) @ filter (\<lambda>r. Date r = None) df"

text \<open>The median as the specification means it, by rank and without sorting: a value has rank
  \<open>k\<close> among the present values when at most \<open>k\<close> of them are smaller and more than \<open>k\<close> of them
  are not larger. The median is the value of middle rank, or the mean of the two values of
  middle rank when the number of present values is even; it is missing when there is none.\<close>

definition spec_present :: "real option list \<Rightarrow> real list" where
  "spec_present col = map the (filter (\<lambda>c. c \<noteq> None) col)"

definition spec_rank_ok :: "real list \<Rightarrow> nat \<Rightarrow> real \<Rightarrow> bool" where
  "spec_rank_ok xs k x =
     (length (filter (\<lambda>y. y < x) xs) \<le> k \<and> k < length (filter (\<lambda>y. y \<le> x) xs))"

definition spec_kth_smallest :: "real list \<Rightarrow> nat \<Rightarrow> real option" where
  "spec_kth_smallest xs k = find (spec_rank_ok xs k) xs"

definition spec_median :: "real option list \<Rightarrow> real option" where
  "spec_median col =
     (let xs = spec_present col; n = length xs in
      if n = 0 then None
      else if odd n then spec_kth_smallest xs (n div 2)
      else (case (spec_kth_smallest xs (n div 2 - 1), spec_kth_smallest xs (n div 2)) of
              (Some a, Some b) \<Rightarrow> Some ((a + b) / 2)
            | _ \<Rightarrow> None))"

text \<open>Imputation as the specification words it: every missing Weight, Reps or Sets cell of a
  row is replaced by the given value of its column; a present cell is kept.\<close>

definition spec_impute :: "real option \<Rightarrow> real option \<Rightarrow> real option \<Rightarrow> 'd row \<Rightarrow> 'd row" where
  "spec_impute mw mr ms r =
     r\<lparr>Weight := (case Weight r of None \<Rightarrow> mw | Some w \<Rightarrow> Some w),
       Reps := (case Reps r of None \<Rightarrow> mr | Some x \<Rightarrow> Some x),
       Sets := (case Sets r of None \<Rightarrow> ms | Some x \<Rightarrow> Some x)\<rparr>"

text \<open>A row after a successful \<^verbatim>\<open>pd.to_datetime\<close>.\<close>

definition parsed :: "(string \<Rightarrow> int option) \<Rightarrow> string option row \<Rightarrow> int option row" where
  "parsed parse r = with_Date (case Date r of None \<Rightarrow> None | Some s \<Rightarrow> parse s) r"

text \<open>The date parser on the date texts of the examples. 2023-01-01 is day 19358, a Sunday.\<close>

definition parse_example :: "string \<Rightarrow> int option" where
  "parse_example = map_of [(''2023-01-01'', 19358), (''2023-01-02'', 19359), (''2023-01-08'', 19365),
     (''01/02/2023'', 19359), (''1/2/2023'', 19359)]"

definition mk_raw :: "string \<Rightarrow> string \<Rightarrow> string \<Rightarrow> real option \<Rightarrow> real option \<Rightarrow> real option \<Rightarrow>
    string option \<Rightarrow> string option row" where
  "mk_raw d w e wt rp st n = \<lparr>Date = Some d, Workout_Name = Some w, Exercise_Name = Some e,
     Weight = wt, Reps = rp, Sets = st, Notes = n\<rparr>"

definition mk_parsed :: "int \<Rightarrow> string \<Rightarrow> string \<Rightarrow> real option \<Rightarrow> real option \<Rightarrow> real option \<Rightarrow>
    string option \<Rightarrow> int option row" where
  "mk_parsed d w e wt rp st n = \<lparr>Date = Some d, Workout_Name = Some w, Exercise_Name = Some e,
     Weight = wt, Reps = rp, Sets = st, Notes = n\<rparr>"

text \<open>Example files. \<open>csv_ok\<close> has an extra column, a duplicated row and missing cells;
  \<open>csv_no_notes\<close> lacks the Notes column; \<open>csv_no_weight\<close> has no weight at all;
  \<open>csv_two_formats\<close> writes one date in two ways; \<open>csv_odd\<close> has three present values
  in each numeric column and a row that misses all three.\<close>

definition csv_ok :: csv_file where
  "csv_ok = \<lparr>columns = [''Date'', ''Workout Name'', ''Exercise Name'', ''Set Order'', ''Weight'', ''Reps'',
       ''Sets'', ''Notes''],
     records =
       [mk_raw ''2023-01-02'' ''B'' ''Squat'' (Some 100) (Some 5) (Some 1) None,
        mk_raw ''2023-01-01'' ''A'' ''Squat'' None (Some 8) None None,
        mk_raw ''2023-01-01'' ''A'' ''Curl'' (Some 20) None (Some 3) None,
        mk_raw ''2023-01-02'' ''B'' ''Squat'' (Some 100) (Some 5) (Some 1) None,
        mk_raw ''2023-01-08'' ''C'' ''Squat'' (Some 80) (Some 6) (Some 1) None]\<rparr>"

definition csv_no_notes :: csv_file where
  "csv_no_notes = \<lparr>columns = [''Date'', ''Workout Name'', ''Exercise Name'', ''Weight'', ''Reps'', ''Sets''],
     records = [mk_raw ''2023-01-01'' ''A'' ''Squat'' (Some 100) (Some 5) (Some 1) None]\<rparr>"

definition csv_no_weight :: csv_file where
  "csv_no_weight = \<lparr>columns = usecols,
     records = [mk_raw ''2023-01-01'' ''A'' ''Squat'' None (Some 5) (Some 1) None]\<rparr>"

definition csv_two_formats :: csv_file where
  "csv_two_formats = \<lparr>columns = usecols,
     records = [mk_raw ''01/02/2023'' ''A'' ''Squat'' (Some 100) (Some 5) (Some 1) None,
                mk_raw ''1/2/2023'' ''A'' ''Squat'' (Some 100) (Some 5) (Some 1) None]\<rparr>"

definition csv_odd :: csv_file where
  "csv_odd = \<lparr>columns = usecols,
     records =
       [mk_raw ''2023-01-02'' ''B'' ''Squat'' (Some 100) (Some 5) (Some 5) None,
        mk_raw ''2023-01-01'' ''A'' ''Squat'' None None None None,
        mk_raw ''2023-01-08'' ''C'' ''Squat'' (Some 60) (Some 8) (Some 1) None,
        mk_raw ''2023-01-01'' ''A'' ''Curl'' (Some 70) (Some 12) (Some 2) None]\<rparr>"

definition csv_odd_sorted :: "int option row list" where
  "csv_odd_sorted =
     [mk_parsed 19358 ''A'' ''Squat'' (Some 70) (Some 8) (Some 2) None,
      mk_parsed 19358 ''A'' ''Curl'' (Some 70) (Some 12) (Some 2) None,
      mk_parsed 19359 ''B'' ''Squat'' (Some 100) (Some 5) (Some 5) None,
      mk_parsed 19365 ''C'' ''Squat'' (Some 60) (Some 8) (Some 1) None]"

definition csv_ok_sorted :: "int option row list" where
  "csv_ok_sorted =
     [mk_parsed 19358 ''A'' ''Squat'' (Some 90) (Some 8) (Some 1) None,
      mk_parsed 19358 ''A'' ''Curl'' (Some 20) (Some (11 / 2)) (Some 3) None,
      mk_parsed 19359 ''B'' ''Squat'' (Some 100) (Some 5) (Some 1) None,
      mk_parsed 19365 ''C'' ''Squat'' (Some 80) (Some 6) (Some 1) None]"


section \<open>Auxiliary definitions for plot\_metric\_over\_time\<close>


text \<open>Twelve sets of squats and two of curls.\<close>

definition squat_curl_df :: "int option row list" where
  "squat_curl_df =
     map (\<lambda>d. mk_row d ''Legs'' ''Squat'' 100 5 3) [1, 3, 5, 8, 10, 12] @
     [mk_row 12 ''Arms'' ''Curl'' 20 10 3] @
     map (\<lambda>d. mk_row d ''Legs'' ''Squat'' 110 5 3) [15, 17, 19, 22, 24, 26] @
     [mk_row 26 ''Arms'' ''Curl'' 25 10 3]"


text \<open>A group with a single set, the figure drawn for it, a group whose only set has no
  weight, and a group whose only set has no date.\<close>

definition one_point_df :: "int option row list" where
  "one_point_df = [mk_row 10 ''A'' ''Bench'' 100 5 1]"

definition one_point_fig :: figure where
  "one_point_fig =
     \<lparr>lines =
        [\<lparr>line_x = [10], line_y = [Some (2333 / 20)],
          line_label = Some ''Bench 1RM'', line_color = None\<rparr>,
         \<lparr>line_x = [10], line_y = [Some (2333 / 20)],
          line_label = None, line_color = Some ''red''\<rparr>],
      title = ''Bench 1RM Over Time'', xlabel = ''Date'', ylabel = ''1RM''\<rparr>"

definition no_weight_df :: "int option row list" where
  "no_weight_df = [(mk_row 10 ''A'' ''Bench'' 100 5 1)\<lparr>Weight := None\<rparr>]"

definition no_date_df :: "int option row list" where
  "no_date_df = [(mk_row 10 ''A'' ''Bench'' 100 5 1)\<lparr>Date := None\<rparr>]"

text \<open>One workout every seventh day from day 0 to day 70: records spanning ten weeks.\<close>

definition weekly_df :: "int option row list" where
  "weekly_df = map (\<lambda>k. mk_row (7 * k) (if k mod 2 = 0 then ''Push'' else ''Pull'') ''Bench'' 100 5 1)
                 [0, 1, 2, 3, 4, 5, 6, 7, 8, 9, 10]"

section \<open>Properties of the metric functions\<close>

lemma length_cumsum_from: "length (cumsum_from acc bs) = length bs"
  by (induction bs arbitrary: acc) auto

lemma cumsum_from_nth:
  "i < length bs \<Longrightarrow> cumsum_from acc bs ! i = acc + int (length (filter id (take (Suc i) bs)))"
proof (induction bs arbitrary: acc i)
  case Nil
  then show ?case by simp
next
  case (Cons b bs)
  show ?case
  proof (cases i)
    case 0
    then show ?thesis by simp
  next
    case (Suc k)
    with Cons.prems have "k < length bs" by simp
    from Cons.IH [OF this] Suc show ?thesis by simp
  qed
qed

lemma count_take_upt:
  "n \<le> length bs \<Longrightarrow> length (filter id (take n bs)) = length (filter (\<lambda>j. bs ! j) [0 ..< n])"
proof (induction n)
  case 0
  then show ?case by simp
next
  case (Suc n)
  then have "n < length bs" by simp
  then have "take (Suc n) bs = take n bs @ [bs ! n]"
    by (simp add: take_Suc_conv_app_nth)
  with Suc show ?case by simp
qed

lemma length_diff: "length (diff col) = length col"
  by (cases col) (auto simp: diff_def)

lemma diff_nth:
  "i < length col \<Longrightarrow> diff col ! i = (if i = 0 then None else nan_sub (col ! i) (col ! (i - 1)))"
  by (cases col; cases i) (auto simp: diff_def)

lemma diff_starts_streak:
  "j < length reps \<Longrightarrow> (diff reps ! j \<noteq> Some 1) = spec_starts_streak reps j"
  by (auto simp: diff_nth spec_starts_streak_def nan_sub_def split: option.splits)

lemma cumsum_streak_id:
  assumes "i < length reps"
  shows "cumsum (map (\<lambda>d. d \<noteq> Some 1) (diff reps)) ! i = spec_streak_id reps i"
proof -
  let ?bs = "map (\<lambda>d. d \<noteq> Some 1) (diff reps)"
  have len: "length ?bs = length reps" by (simp add: length_diff)
  have "cumsum ?bs ! i = int (length (filter (\<lambda>j. ?bs ! j) [0 ..< Suc i]))"
    using assms len by (simp add: cumsum_def cumsum_from_nth count_take_upt del: upt_Suc)
  also have "filter (\<lambda>j. ?bs ! j) [0 ..< Suc i] = filter (spec_starts_streak reps) [0 ..< Suc i]"
    using assms by (intro filter_cong refl) (auto simp: length_diff diff_starts_streak simp del: upt_Suc)
  finally show ?thesis by (simp add: spec_streak_id_def del: upt_Suc)
qed

text \<open>
  Claim C3. For every sequence of reps values, \<^verbatim>\<open>calc_max_consecutive_reps\<close> yields one value per
  position, and at position \<open>i\<close> it is \<open>streak_id[i]\<close> when \<open>reps[i] == 1\<close> and 0 otherwise, where
  \<open>streak_id[i]\<close> is the number of positions \<open>j \<le> i\<close> with \<open>reps[j] != reps[j-1] + 1\<close>, the first
  position always counted.
\<close>

theorem calc_max_consecutive_reps_streak:
  "length (calc_max_consecutive_reps grp) = length grp \<and>
   (\<forall>i. i < length grp \<longrightarrow>
      calc_max_consecutive_reps grp ! i =
        (if Reps (grp ! i) = Some 1 then spec_streak_id (map Reps grp) i else 0))"
proof -
  have len: "length (calc_max_consecutive_reps grp) = length grp"
    by (simp add: calc_max_consecutive_reps_def cumsum_def length_cumsum_from length_diff)
  have "calc_max_consecutive_reps grp ! i =
        (if Reps (grp ! i) = Some 1 then spec_streak_id (map Reps grp) i else 0)"
    if "i < length grp" for i
    using that cumsum_streak_id [of i "map Reps grp"]
    by (simp add: calc_max_consecutive_reps_def cumsum_def length_cumsum_from length_diff)
  with len show ?thesis by blast
qed

theorem calc_max_consecutive_reps_streak_witness:
  "4 < length (map reps_row [Some 1, Some 2, Some 1, None, Some 1, Some 5]) \<and>
   Reps (map reps_row [Some 1, Some 2, Some 1, None, Some 1, Some 5] ! 4) = Some 1 \<and>
   calc_max_consecutive_reps (map reps_row [Some 1, Some 2, Some 1, None, Some 1, Some 5]) ! 4 =
     spec_streak_id (map Reps (map reps_row [Some 1, Some 2, Some 1, None, Some 1, Some 5])) 4 \<and>
   calc_max_consecutive_reps (map reps_row [Some 1, Some 2, Some 1, None, Some 1, Some 5]) =
     [1, 0, 2, 0, 4, 0]"
proof -
  let ?g = "map reps_row [Some 1, Some 2, Some 1, None, Some 1, Some 5]"
  have len: "4 < length ?g" by simp
  have one: "Reps (?g ! 4) = Some 1" by (simp add: reps_row_def)
  have val: "calc_max_consecutive_reps ?g = [1, 0, 2, 0, 4, 0]"
    by (simp add: calc_max_consecutive_reps_def cumsum_def diff_def nan_sub_def reps_row_def)
  from calc_max_consecutive_reps_streak [of ?g] len one
  have "calc_max_consecutive_reps ?g ! 4 = spec_streak_id (map Reps ?g) 4" by simp
  with len one val show ?thesis by simp
qed

section \<open>Properties of plot\_metric\_over\_time\<close>

lemma plot_group_zero: "plot_group lstsq n f (Some 0) = plot_group lstsq n f None"
  by (rule ext) (simp add: plot_group_def retained_def truthy_def)

text \<open>
  Claim C10. Calling \<^verbatim>\<open>plot_metric_over_time\<close> with \<^verbatim>\<open>last_x_days = 0\<close> gives the same result as
  calling it without \<^verbatim>\<open>last_x_days\<close>: the parameter is tested by truthiness, so no recency filter
  is applied and every row of a group that has weight and reps is kept.
\<close>

theorem last_x_days_zero_is_none:
  "plot_metric_over_time lstsq df metric_name metric_func min_exercises (Some 0) =
   plot_metric_over_time lstsq df metric_name metric_func min_exercises None \<and>
   retained (Some 0) grp = dropna_Weight_Reps grp \<and> retained None grp = dropna_Weight_Reps grp"
proof -
  have "plot_groups lstsq metric_name metric_func (Some 0) gs =
        plot_groups lstsq metric_name metric_func None gs" for gs
    by (induction gs) (simp_all add: plot_group_zero split: sum.splits)
  then show ?thesis
    by (simp add: plot_metric_over_time_def retained_def truthy_def)
qed

theorem last_x_days_zero_is_none_witness:
  "plot_metric_over_time lstsq_example bench_df ''1RM'' calc_one_rep_max 0 (Some 0) =
   plot_metric_over_time lstsq_example bench_df ''1RM'' calc_one_rep_max 0 None \<and>
   retained (Some 0) bench_df = bench_df \<and>
   last_x_days_filter 0 bench_df = [mk_row 12 ''B'' ''Bench'' 100 5 1]"
proof -
  have keep: "dropna_Weight_Reps bench_df = bench_df"
    by (simp add: dropna_Weight_Reps_def bench_df_def mk_row_def)
  have filt: "last_x_days_filter 0 bench_df = [mk_row 12 ''B'' ''Bench'' 100 5 1]"
    by (simp add: last_x_days_filter_def max_skipna_def dropna_col_def bench_df_def mk_row_def)
  from last_x_days_zero_is_none [of lstsq_example bench_df "''1RM''" calc_one_rep_max 0 bench_df]
    keep filt show ?thesis by simp
qed

section \<open>Properties of read\_data\<close>

lemma dropna_col_simps [simp]:
  "dropna_col [] = []"
  "dropna_col (None # col) = dropna_col col"
  "dropna_col (Some x # col) = x # dropna_col col"
  by (simp_all add: dropna_col_def)

lemma mset_dropna_col:
  "mset (dropna_col col) = image_mset the (filter_mset (\<lambda>c. c \<noteq> None) (mset col))"
proof (induction col)
  case Nil
  then show ?case by simp
next
  case (Cons c col)
  then show ?case by (cases c) simp_all
qed

lemma set_dropna_col: "set (dropna_col col) = {x. Some x \<in> set col}"
proof (induction col)
  case Nil
  then show ?case by simp
next
  case (Cons c col)
  then show ?case by (cases c) auto
qed

lemma median_perm:
  assumes "mset col' = mset col"
  shows "median col' = median col"
proof -
  have "mset (dropna_col col') = mset (dropna_col col)"
    by (simp add: mset_dropna_col assms)
  then have "sort (dropna_col col') = sort (dropna_col col)"
    by (metis properties_for_sort sorted_sort mset_sort)
  then show ?thesis by (simp add: median_def)
qed

lemma dropna_col_Nil_iff: "dropna_col col = [] \<longleftrightarrow> (\<forall>c \<in> set col. c = None)"
proof (induction col)
  case Nil
  then show ?case by simp
next
  case (Cons c col)
  then show ?case by (cases c) simp_all
qed

lemma sort_Nil_iff: "sort xs = [] \<longleftrightarrow> xs = []"
  using length_sort [of "\<lambda>x. x" xs] by (metis length_0_conv)

lemma median_None_iff: "median col = None \<longleftrightarrow> (\<forall>c \<in> set col. c = None)"
proof (cases "dropna_col col = []")
  case True
  then show ?thesis using dropna_col_Nil_iff [of col] by (simp add: median_def)
next
  case False
  then have "median col \<noteq> None"
    by (cases "odd (length (dropna_col col))") (simp_all add: median_def Let_def sort_Nil_iff del: not_None_eq)
  then show ?thesis using False dropna_col_Nil_iff [of col] by auto
qed

lemma fillna_stage:
  "fillna_Sets (fillna_Reps (fillna_Weight df)) =
   map (spec_impute (median (map Weight df)) (median (map Reps df)) (median (map Sets df))) df"
  by (simp add: fillna_Sets_def fillna_Reps_def fillna_Weight_def spec_impute_def fillna_def
      Let_def comp_def)

lemma set_drop_duplicates [simp]: "set (drop_duplicates xs) = set xs"
  by (induction xs rule: drop_duplicates.induct) auto

lemma distinct_drop_duplicates [simp]: "distinct (drop_duplicates xs)"
  by (induction xs rule: drop_duplicates.induct) auto

lemma to_datetime_Inr:
  "to_datetime parse rs = Inr out \<Longrightarrow> out = map (parsed parse) rs"
proof (induction rs arbitrary: out)
  case Nil
  then show ?case by simp
next
  case (Cons r rs)
  then show ?case
    by (auto simp: to_datetime_cell_def parsed_def split: sum.splits option.splits)
qed

lemma to_datetime_Inl:
  "to_datetime parse rs = Inl e \<Longrightarrow> e = ParseError"
proof (induction rs)
  case Nil
  then show ?case by simp
next
  case (Cons r rs)
  then show ?case
    by (auto simp: to_datetime_cell_def split: sum.splits option.splits)
qed

lemma sort_values_stable: "sort_values_Date df (stable_sort_Date df)"
proof -
  let ?P = "\<lambda>r::int option row. Date r \<noteq> None"
  let ?k = "\<lambda>r::int option row. the (Date r)"
  have m: "mset (stable_sort_Date df) = mset df"
    by (simp add: stable_sort_Date_def)
  have s1: "sorted_wrt (\<lambda>a b. date_le (Date a) (Date b)) (sort_key ?k (filter ?P df))"
  proof -
    have "sorted (map ?k (sort_key ?k (filter ?P df)))" by (rule sorted_sort_key)
    then have sw: "sorted_wrt (\<lambda>a b. ?k a \<le> ?k b) (sort_key ?k (filter ?P df))"
      by (simp add: sorted_map)
    show ?thesis
    proof (rule sorted_wrt_mono_rel [OF _ sw])
      fix a b :: "int option row"
      assume "a \<in> set (sort_key ?k (filter ?P df))" "b \<in> set (sort_key ?k (filter ?P df))"
        and "?k a \<le> ?k b"
      then show "date_le (Date a) (Date b)" by (auto simp: date_le_def)
    qed
  qed
  have s2: "sorted_wrt (\<lambda>a b. date_le (Date a) (Date b)) (filter (\<lambda>r. Date r = None) df)"
    by (rule sorted_wrt_mono_rel [of _ "\<lambda>a b. True"]) (auto simp: date_le_def)
  have "sorted_wrt (\<lambda>a b. date_le (Date a) (Date b)) (stable_sort_Date df)"
    unfolding stable_sort_Date_def sorted_wrt_append using s1 s2 by (auto simp: date_le_def)
  with m show ?thesis by (simp add: sort_values_Date_def)
qed

lemma read_csv_Inl: "read_csv f = Inl e \<Longrightarrow> e = SchemaError"
  by (simp add: read_csv_def split: if_splits)

lemma read_csv_SchemaError: "read_csv f = Inl SchemaError \<longleftrightarrow> \<not> set usecols \<subseteq> set (columns f)"
  by (auto simp: read_csv_def list_all_iff)

lemma read_data_unsorted_SchemaError:
  "read_data_unsorted parse f = Inl SchemaError \<longleftrightarrow> \<not> set usecols \<subseteq> set (columns f)"
proof (cases "read_csv f")
  case (Inl e)
  then show ?thesis using read_csv_Inl [OF Inl] read_csv_SchemaError [of f]
    by (simp add: read_data_unsorted_def)
next
  case (Inr df)
  then have "set usecols \<subseteq> set (columns f)" using read_csv_SchemaError [of f] by auto
  moreover have "read_data_unsorted parse f \<noteq> Inl SchemaError"
    using Inr to_datetime_Inl [of parse _ SchemaError] by (auto simp: read_data_unsorted_def)
  ultimately show ?thesis by simp
qed

text \<open>
  Claim C9. \<^verbatim>\<open>read_data\<close> fails with the schema error if and only if one of the seven required
  columns is absent from the header; then it is the only outcome. When all seven are present
  the load has an outcome and it is not the schema error.
\<close>

theorem read_data_schema_error:
  "(read_data parse f (Inl SchemaError) \<longleftrightarrow> \<not> set usecols \<subseteq> set (columns f)) \<and>
   (\<not> set usecols \<subseteq> set (columns f) \<longrightarrow> (\<forall>res. read_data parse f res \<longleftrightarrow> res = Inl SchemaError)) \<and>
   (\<exists>res. read_data parse f res)"
proof -
  have a: "read_data parse f (Inl SchemaError) \<longleftrightarrow> \<not> set usecols \<subseteq> set (columns f)"
    using read_data_unsorted_SchemaError [of parse f]
    by (auto simp: read_data_def split: sum.splits)
  have b: "read_data parse f res \<longleftrightarrow> res = Inl SchemaError" if "\<not> set usecols \<subseteq> set (columns f)" for res
    using that read_data_unsorted_SchemaError [of parse f] by (simp add: read_data_def)
  have c: "\<exists>res. read_data parse f res"
  proof (cases "read_data_unsorted parse f")
    case (Inl e)
    then show ?thesis by (auto simp: read_data_def)
  next
    case (Inr df)
    then have "read_data parse f (Inr (stable_sort_Date df))"
      by (simp add: read_data_def sort_values_stable)
    then show ?thesis ..
  qed
  from a b c show ?thesis by blast
qed


lemma read_data_InrD:
  assumes "read_data parse f (Inr out)"
  shows "read_data_unsorted parse f =
           Inr (map (parsed parse) (drop_duplicates (fillna_Sets (fillna_Reps (fillna_Weight (records f))))))"
    and "sort_values_Date
           (map (parsed parse) (drop_duplicates (fillna_Sets (fillna_Reps (fillna_Weight (records f)))))) out"
    and "to_datetime parse (drop_duplicates (fillna_Sets (fillna_Reps (fillna_Weight (records f))))) =
           Inr (map (parsed parse) (drop_duplicates (fillna_Sets (fillna_Reps (fillna_Weight (records f))))))"
proof -
  let ?raw = "drop_duplicates (fillna_Sets (fillna_Reps (fillna_Weight (records f))))"
  from assms obtain df where u: "read_data_unsorted parse f = Inr df" and s: "sort_values_Date df out"
    by (auto simp: read_data_def split: sum.splits)
  from u have t: "to_datetime parse ?raw = Inr df"
    by (auto simp: read_data_unsorted_def read_csv_def split: sum.splits if_splits)
  then have df: "df = map (parsed parse) ?raw" by (rule to_datetime_Inr)
  from u df show "read_data_unsorted parse f = Inr (map (parsed parse) ?raw)" by simp
  from s df show "sort_values_Date (map (parsed parse) ?raw) out" by simp
  from t df show "to_datetime parse ?raw = Inr (map (parsed parse) ?raw)" by simp
qed

lemma read_data_stable:
  "read_data_unsorted parse f = Inr df \<Longrightarrow> read_data parse f (Inr (stable_sort_Date df))"
  by (simp add: read_data_def sort_values_stable)

lemma read_data_any_order:
  "read_data_unsorted parse f = Inr df \<Longrightarrow> sort_values_Date df out \<Longrightarrow> read_data parse f (Inr out)"
  by (simp add: read_data_def)

theorem read_data_schema_error_witness:
  "\<not> set usecols \<subseteq> set (columns csv_no_notes) \<and>
   read_data parse_example csv_no_notes (Inl SchemaError) \<and>
   set usecols \<subseteq> set (columns csv_ok) \<and>
   \<not> read_data parse_example csv_ok (Inl SchemaError)"
proof -
  have a: "\<not> set usecols \<subseteq> set (columns csv_no_notes)"
    by (simp add: usecols_def csv_no_notes_def)
  have b: "set usecols \<subseteq> set (columns csv_ok)"
    by (simp add: usecols_def csv_ok_def)
  from a b read_data_schema_error [of parse_example csv_no_notes]
    read_data_schema_error [of parse_example csv_ok]
  show ?thesis by blast
qed

lemma dropna_col_present: "dropna_col col = spec_present col"
proof (induction col)
  case Nil
  then show ?case by (simp add: spec_present_def)
next
  case (Cons c col)
  then show ?case by (cases c) (simp_all add: spec_present_def)
qed

lemma length_filter_mset: "length (filter P xs) = size (filter_mset P (mset xs))"
  by (metis mset_filter size_mset)

lemma rank_ok_perm: "mset s = mset xs \<Longrightarrow> spec_rank_ok s k x = spec_rank_ok xs k x"
  by (simp add: spec_rank_ok_def length_filter_mset)

lemma length_filter_imp:
  "(\<And>x. x \<in> set xs \<Longrightarrow> P x \<Longrightarrow> Q x) \<Longrightarrow> length (filter P xs) \<le> length (filter Q xs)"
  by (induction xs) auto

lemma rank_ok_unique:
  assumes "spec_rank_ok xs k x" "spec_rank_ok xs k y"
  shows "x = y"
proof (rule ccontr)
  assume ne: "x \<noteq> y"
  have aux: False if "a < b" "spec_rank_ok xs k a" "spec_rank_ok xs k b" for a b
  proof -
    have "length (filter (\<lambda>z. z \<le> a) xs) \<le> length (filter (\<lambda>z. z < b) xs)"
      using that(1) by (intro length_filter_imp) auto
    with that(2,3) show False by (simp add: spec_rank_ok_def)
  qed
  from ne have "x < y \<or> y < x" by auto
  with aux assms show False by blast
qed

lemma rank_ok_sorted:
  assumes "sorted s" "k < length s"
  shows "spec_rank_ok s k (s ! k)"
proof -
  have s: "s = take k s @ drop k s" by simp
  have "filter (\<lambda>y. y < s ! k) (drop k s) = []"
  proof -
    have "s ! k \<le> y" if "y \<in> set (drop k s)" for y
    proof -
      from that obtain i where "i < length (drop k s)" "y = drop k s ! i"
        by (auto simp: in_set_conv_nth)
      then have "y = s ! (k + i)" "k + i < length s" by simp_all
      with assms(1) show ?thesis by (simp add: sorted_nth_mono)
    qed
    then show ?thesis by (fastforce simp: filter_empty_conv)
  qed
  then have "length (filter (\<lambda>y. y < s ! k) s) = length (filter (\<lambda>y. y < s ! k) (take k s))"
    by (subst s) (simp del: append_take_drop_id)
  also have "\<dots> \<le> length (take k s)" by (rule length_filter_le)
  also have "\<dots> \<le> k" by simp
  finally have lo: "length (filter (\<lambda>y. y < s ! k) s) \<le> k" .
  have t: "s = take (Suc k) s @ drop (Suc k) s" by simp
  have "filter (\<lambda>y. y \<le> s ! k) (take (Suc k) s) = take (Suc k) s"
  proof -
    have "y \<le> s ! k" if "y \<in> set (take (Suc k) s)" for y
    proof -
      from that obtain i where "i < length (take (Suc k) s)" "y = take (Suc k) s ! i"
        by (auto simp: in_set_conv_nth)
      then have "y = s ! i" "i \<le> k" by simp_all
      with assms show ?thesis by (simp add: sorted_nth_mono)
    qed
    then show ?thesis by (auto simp: filter_id_conv)
  qed
  then have "length (take (Suc k) s) \<le> length (filter (\<lambda>y. y \<le> s ! k) s)"
    by (subst (2) t) (simp del: append_take_drop_id)
  with assms(2) have hi: "k < length (filter (\<lambda>y. y \<le> s ! k) s)" by simp
  from lo hi show ?thesis by (simp add: spec_rank_ok_def)
qed

lemma kth_smallest_sort:
  assumes "k < length xs"
  shows "spec_kth_smallest xs k = Some (sort xs ! k)"
proof -
  let ?x = "sort xs ! k"
  have ok: "spec_rank_ok xs k ?x"
    using rank_ok_sorted [of "sort xs" k] rank_ok_perm [of "sort xs" xs k ?x] assms by simp
  have mem: "?x \<in> set xs"
    using assms by (metis length_sort nth_mem set_sort)
  from ok mem have "find (spec_rank_ok xs k) xs \<noteq> None" by (auto simp: find_None_iff)
  then obtain y where y: "find (spec_rank_ok xs k) xs = Some y" by auto
  then have "spec_rank_ok xs k y" by (auto simp: find_Some_iff)
  with ok have "y = ?x" by (rule rank_ok_unique [rotated])
  with y show ?thesis by (simp add: spec_kth_smallest_def)
qed

lemma median_spec: "median col = spec_median col"
proof -
  let ?xs = "spec_present col"
  have d: "dropna_col col = ?xs" by (rule dropna_col_present)
  show ?thesis
  proof (cases "length ?xs = 0")
    case True
    then show ?thesis by (simp add: median_def spec_median_def d)
  next
    case False
    then have "length ?xs div 2 < length ?xs" "length ?xs div 2 - 1 < length ?xs" by linarith+
    then show ?thesis using False
      by (simp add: median_def spec_median_def d Let_def kth_smallest_sort sort_Nil_iff)
  qed
qed

text \<open>
  Claim C4. \<^verbatim>\<open>Series.median\<close> as modelled is the median of the present values of the column
  (the value of middle rank, the mean of the two middle ones for an even count). After the
  three \<^verbatim>\<open>fillna\<close> lines every row is the input row with each missing Weight, Reps or Sets cell
  replaced by the median of its own column, taken over all rows of the input, and every present
  cell unchanged. The medians do not change when the input rows are permuted. The rows returned
  by \<^verbatim>\<open>read_data\<close> are the input rows imputed with these whole-input medians (deduplication and
  sorting come afterwards and only drop and reorder rows).
\<close>

theorem median_imputation:
  "median col = spec_median col \<and>
   fillna_Sets (fillna_Reps (fillna_Weight df)) =
     map (spec_impute (spec_median (map Weight df)) (spec_median (map Reps df))
            (spec_median (map Sets df))) df \<and>
   (mset df' = mset df \<longrightarrow>
      spec_median (map Weight df') = spec_median (map Weight df) \<and>
      spec_median (map Reps df') = spec_median (map Reps df) \<and>
      spec_median (map Sets df') = spec_median (map Sets df)) \<and>
   (read_data parse f (Inr out) \<longrightarrow>
      set out =
        (\<lambda>r. parsed parse (spec_impute (spec_median (map Weight (records f)))
                 (spec_median (map Reps (records f))) (spec_median (map Sets (records f))) r)) `
          set (records f))"
proof -
  have perm: "spec_median (map c df') = spec_median (map c df)" if "mset df' = mset df"
    for c :: "'a row \<Rightarrow> real option"
  proof -
    from that have "mset (map c df') = mset (map c df)" by simp
    then have "median (map c df') = median (map c df)" by (rule median_perm)
    then show ?thesis by (simp add: median_spec)
  qed
  have out: "set out =
        (\<lambda>r. parsed parse (spec_impute (spec_median (map Weight (records f)))
                 (spec_median (map Reps (records f))) (spec_median (map Sets (records f))) r)) `
          set (records f)"
    if "read_data parse f (Inr out)"
  proof -
    from read_data_InrD(2) [OF that]
    have "mset out = mset (map (parsed parse)
            (drop_duplicates (fillna_Sets (fillna_Reps (fillna_Weight (records f))))))"
      by (simp add: sort_values_Date_def)
    then have "set out = set (map (parsed parse)
            (drop_duplicates (fillna_Sets (fillna_Reps (fillna_Weight (records f))))))"
      by (rule mset_eq_setD)
    then show ?thesis by (simp add: fillna_stage image_image median_spec)
  qed
  have stage: "fillna_Sets (fillna_Reps (fillna_Weight df)) =
     map (spec_impute (spec_median (map Weight df)) (spec_median (map Reps df))
            (spec_median (map Sets df))) df"
    using fillna_stage [of df] by (simp add: median_spec)
  from median_spec [of col] stage perm out show ?thesis by blast
qed

lemma to_datetime_parses:
  "to_datetime parse rs = Inr out \<Longrightarrow> r \<in> set rs \<Longrightarrow> Date r = Some s \<Longrightarrow> parse s \<noteq> None"
proof (induction rs arbitrary: out)
  case Nil
  then show ?case by simp
next
  case (Cons a rs)
  from Cons.prems(1) obtain d out' where
    cell: "to_datetime_cell parse (Date a) = Inr d" and rest: "to_datetime parse rs = Inr out'"
    by (auto split: sum.splits)
  show ?case
  proof (cases "r = a")
    case True
    with cell Cons.prems(3) show ?thesis
      by (cases "parse s") (auto simp: to_datetime_cell_def simp del: not_None_eq)
  next
    case False
    with Cons.prems(2) have "r \<in> set rs" by simp
    from Cons.IH [OF rest this Cons.prems(3)] show ?thesis .
  qed
qed

lemma Date_fillna_stage: "map Date (fillna_Sets (fillna_Reps (fillna_Weight df))) = map Date df"
  by (simp add: fillna_stage spec_impute_def comp_def)

lemma parsed_inj:
  assumes inj: "inj_on parse {s. Some s \<in> Date ` A}"
    and ok: "\<And>r s. r \<in> A \<Longrightarrow> Date r = Some s \<Longrightarrow> parse s \<noteq> None"
  shows "inj_on (parsed parse) A"
proof (rule inj_onI)
  fix x y assume x: "x \<in> A" and y: "y \<in> A" and eq: "parsed parse x = parsed parse y"
  from eq have rest: "Workout_Name x = Workout_Name y" "Exercise_Name x = Exercise_Name y"
      "Weight x = Weight y" "Reps x = Reps y" "Sets x = Sets y" "Notes x = Notes y"
      "row.more x = row.more y"
    and d: "(case Date x of None \<Rightarrow> None | Some s \<Rightarrow> parse s) = (case Date y of None \<Rightarrow> None | Some s \<Rightarrow> parse s)"
    by (simp_all add: parsed_def with_Date_def)
  have "Date x = Date y"
  proof (cases "Date x")
    case None
    with d ok [OF y] show ?thesis by (cases "Date y") auto
  next
    case (Some s)
    note sx = this
    show ?thesis
    proof (cases "Date y")
      case None
      with d sx ok [OF x sx] show ?thesis by auto
    next
      case (Some t)
      with d sx have "parse s = parse t" by simp
      moreover have "s \<in> {s. Some s \<in> Date ` A}" "t \<in> {s. Some s \<in> Date ` A}"
        using x y sx Some by (auto simp: image_iff) (metis)+
      ultimately have "s = t" using inj by (auto dest: inj_onD)
      with sx Some show ?thesis by simp
    qed
  qed
  with rest show "x = y" by (intro row.equality) simp_all
qed

theorem median_imputation_witness:
  "mset (rev (records csv_odd)) = mset (records csv_odd) \<and>
   map Weight (records csv_odd) = [Some 100, None, Some 60, Some 70] \<and>
   median (map Weight (records csv_odd)) = Some 70 \<and>
   spec_median (map Weight (records csv_odd)) = Some 70 \<and>
   spec_median (map Weight (rev (records csv_odd))) = Some 70 \<and>
   spec_median (map Reps (records csv_odd)) = Some 8 \<and>
   spec_median (map Sets (records csv_odd)) = Some 2 \<and>
   map Weight (fillna_Sets (fillna_Reps (fillna_Weight (records csv_odd)))) =
     [Some 100, Some 70, Some 60, Some 70] \<and>
   read_data parse_example csv_odd (Inr csv_odd_sorted) \<and>
   set csv_odd_sorted =
     (\<lambda>r. parsed parse_example (spec_impute (Some 70) (Some 8) (Some 2) r)) ` set (records csv_odd) \<and>
   map Weight (records csv_ok) = [Some 100, None, Some 20, Some 100, Some 80] \<and>
   median (map Weight (records csv_ok)) = Some 90 \<and>
   spec_median (map Weight (records csv_ok)) = Some 90 \<and>
   spec_median (map Reps (records csv_ok)) = Some (11 / 2) \<and>
   spec_median (map Sets (records csv_ok)) = Some 1 \<and>
   read_data parse_example csv_ok (Inr csv_ok_sorted) \<and>
   set csv_ok_sorted =
     (\<lambda>r. parsed parse_example (spec_impute (Some 90) (Some (11 / 2)) (Some 1) r)) ` set (records csv_ok)"
proof -
  have p: "mset (rev (records csv_odd)) = mset (records csv_odd)" by simp
  have cw: "map Weight (records csv_odd) = [Some 100, None, Some 60, Some 70]" by code_simp
  have w: "spec_median (map Weight (records csv_odd)) = Some 70" by code_simp
  have r: "spec_median (map Reps (records csv_odd)) = Some 8" by code_simp
  have s: "spec_median (map Sets (records csv_odd)) = Some 2" by code_simp
  have run: "read_data parse_example csv_odd (Inr csv_odd_sorted)" by code_simp
  note odd = median_imputation [of "map Weight (records csv_odd)" "records csv_odd"
      "rev (records csv_odd)" parse_example csv_odd csv_odd_sorted]
  from odd w have mw: "median (map Weight (records csv_odd)) = Some 70" by simp
  from odd p w have pw: "spec_median (map Weight (rev (records csv_odd))) = Some 70" by simp
  from odd w r s have "map Weight (fillna_Sets (fillna_Reps (fillna_Weight (records csv_odd)))) =
      map Weight (map (spec_impute (Some 70) (Some 8) (Some 2)) (records csv_odd))" by simp
  also have "\<dots> = [Some 100, Some 70, Some 60, Some 70]" by code_simp
  finally have fw: "map Weight (fillna_Sets (fillna_Reps (fillna_Weight (records csv_odd)))) =
      [Some 100, Some 70, Some 60, Some 70]" .
  from odd run w r s have so: "set csv_odd_sorted =
     (\<lambda>r. parsed parse_example (spec_impute (Some 70) (Some 8) (Some 2) r)) ` set (records csv_odd)"
    by simp
  have cw2: "map Weight (records csv_ok) = [Some 100, None, Some 20, Some 100, Some 80]" by code_simp
  have w2: "spec_median (map Weight (records csv_ok)) = Some 90" by code_simp
  have r2: "spec_median (map Reps (records csv_ok)) = Some (11 / 2)" by code_simp
  have s2: "spec_median (map Sets (records csv_ok)) = Some 1" by code_simp
  have run2: "read_data parse_example csv_ok (Inr csv_ok_sorted)" by code_simp
  note even = median_imputation [of "map Weight (records csv_ok)" "records csv_ok"
      "records csv_ok" parse_example csv_ok csv_ok_sorted]
  from even w2 have mw2: "median (map Weight (records csv_ok)) = Some 90" by simp
  from even run2 w2 r2 s2 have se: "set csv_ok_sorted =
     (\<lambda>r. parsed parse_example (spec_impute (Some 90) (Some (11 / 2)) (Some 1) r)) ` set (records csv_ok)"
    by simp
  from p cw w mw pw r s fw run so cw2 w2 mw2 r2 s2 run2 se show ?thesis by blast
qed

text \<open>
  Claim C5, amended. The rows returned by \<^verbatim>\<open>read_data\<close> are the parsed images of pairwise
  different imputed rows; when different date texts of the file denote different dates, no two
  returned rows are equal; and for each of Weight, Reps and Sets, when the column has at least
  one present value in the file, no returned row misses it.
\<close>

theorem read_data_no_duplicates_no_missing:
  assumes "read_data parse f (Inr out)"
  shows "(\<exists>raw. distinct raw \<and> set raw = set (fillna_Sets (fillna_Reps (fillna_Weight (records f)))) \<and>
            mset out = mset (map (parsed parse) raw)) \<and>
         (inj_on parse {s. Some s \<in> Date ` set (records f)} \<longrightarrow> distinct out) \<and>
         ((\<exists>r \<in> set (records f). Weight r \<noteq> None) \<longrightarrow> (\<forall>r \<in> set out. Weight r \<noteq> None)) \<and>
         ((\<exists>r \<in> set (records f). Reps r \<noteq> None) \<longrightarrow> (\<forall>r \<in> set out. Reps r \<noteq> None)) \<and>
         ((\<exists>r \<in> set (records f). Sets r \<noteq> None) \<longrightarrow> (\<forall>r \<in> set out. Sets r \<noteq> None))"
proof -
  let ?fill = "fillna_Sets (fillna_Reps (fillna_Weight (records f)))"
  let ?raw = "drop_duplicates ?fill"
  have m: "mset out = mset (map (parsed parse) ?raw)"
    using read_data_InrD(2) [OF assms] by (simp add: sort_values_Date_def)
  have a: "\<exists>raw. distinct raw \<and> set raw = set ?fill \<and> mset out = mset (map (parsed parse) raw)"
    using m by (intro exI [of _ ?raw]) simp
  have b: "distinct out" if inj: "inj_on parse {s. Some s \<in> Date ` set (records f)}"
  proof -
    have dates: "Date ` set ?raw = Date ` set (records f)"
      using Date_fillna_stage [of "records f"] by (metis set_drop_duplicates set_map)
    have "inj_on (parsed parse) (set ?raw)"
    proof (rule parsed_inj)
      show "inj_on parse {s. Some s \<in> Date ` set ?raw}" using inj dates by simp
    next
      fix r s assume "r \<in> set ?raw" "Date r = Some s"
      then show "parse s \<noteq> None" using to_datetime_parses [OF read_data_InrD(3) [OF assms]] by blast
    qed
    then have "distinct (map (parsed parse) ?raw)" by (simp add: distinct_map)
    with m show ?thesis by (metis mset_eq_imp_distinct_iff)
  qed
  have s: "set out = (\<lambda>r. parsed parse (spec_impute (median (map Weight (records f)))
      (median (map Reps (records f))) (median (map Sets (records f))) r)) ` set (records f)"
    using m mset_eq_setD [OF m] by (simp add: fillna_stage image_image)
  have w: "\<forall>r \<in> set out. Weight r \<noteq> None" if "\<exists>r \<in> set (records f). Weight r \<noteq> None"
  proof -
    from that have "median (map Weight (records f)) \<noteq> None" by (auto simp: median_None_iff)
    then show ?thesis unfolding s
      by (auto simp: parsed_def with_Date_def spec_impute_def fillna_def split: option.splits)
  qed
  have r: "\<forall>r \<in> set out. Reps r \<noteq> None" if "\<exists>r \<in> set (records f). Reps r \<noteq> None"
  proof -
    from that have "median (map Reps (records f)) \<noteq> None" by (auto simp: median_None_iff)
    then show ?thesis unfolding s
      by (auto simp: parsed_def with_Date_def spec_impute_def fillna_def split: option.splits)
  qed
  have t: "\<forall>r \<in> set out. Sets r \<noteq> None" if "\<exists>r \<in> set (records f). Sets r \<noteq> None"
  proof -
    from that have "median (map Sets (records f)) \<noteq> None" by (auto simp: median_None_iff)
    then show ?thesis unfolding s
      by (auto simp: parsed_def with_Date_def spec_impute_def fillna_def split: option.splits)
  qed
  from a b w r t show ?thesis by blast
qed

theorem read_data_no_duplicates_no_missing_witness:
  "read_data parse_example csv_ok (Inr csv_ok_sorted) \<and>
   inj_on parse_example {s. Some s \<in> Date ` set (records csv_ok)} \<and>
   distinct csv_ok_sorted \<and>
   list_all (\<lambda>r. Weight r \<noteq> None \<and> Reps r \<noteq> None \<and> Sets r \<noteq> None) csv_ok_sorted \<and>
   length csv_ok_sorted = 4 \<and> length (records csv_ok) = 5"
proof -
  have run: "read_data parse_example csv_ok (Inr csv_ok_sorted)" by code_simp
  have inj: "inj_on parse_example {s. Some s \<in> Date ` set (records csv_ok)}"
    by (auto simp: inj_on_def csv_ok_def mk_raw_def parse_example_def)
  have some: "\<exists>r \<in> set (records csv_ok). Weight r \<noteq> None"
    "\<exists>r \<in> set (records csv_ok). Reps r \<noteq> None" "\<exists>r \<in> set (records csv_ok). Sets r \<noteq> None"
    by (simp_all add: csv_ok_def mk_raw_def)
  have len: "length csv_ok_sorted = 4 \<and> length (records csv_ok) = 5"
    by (simp add: csv_ok_sorted_def csv_ok_def)
  from read_data_no_duplicates_no_missing [OF run] inj some
  have "distinct csv_ok_sorted"
    and "\<forall>r \<in> set csv_ok_sorted. Weight r \<noteq> None"
    and "\<forall>r \<in> set csv_ok_sorted. Reps r \<noteq> None"
    and "\<forall>r \<in> set csv_ok_sorted. Sets r \<noteq> None"
    by blast+
  with run inj len show ?thesis by (simp add: list_all_iff)
qed

text \<open>
  The claim C5 as stated fails: a file whose Weight column is empty keeps its missing weight
  (the median of no values is missing), and two rows that differ only in how they write the
  same date survive \<^verbatim>\<open>drop_duplicates\<close>, which runs before the dates are parsed, and are equal
  afterwards.
\<close>

theorem read_data_missing_or_duplicate_counterexample:
  "read_data parse_example csv_no_weight
     (Inr [mk_parsed 19358 ''A'' ''Squat'' None (Some 5) (Some 1) None]) \<and>
   Weight (mk_parsed 19358 ''A'' ''Squat'' None (Some 5) (Some 1) None) = None \<and>
   read_data parse_example csv_two_formats
     (Inr [mk_parsed 19359 ''A'' ''Squat'' (Some 100) (Some 5) (Some 1) None,
           mk_parsed 19359 ''A'' ''Squat'' (Some 100) (Some 5) (Some 1) None])"
proof -
  have a: "read_data parse_example csv_no_weight
     (Inr [mk_parsed 19358 ''A'' ''Squat'' None (Some 5) (Some 1) None])" by code_simp
  have b: "Weight (mk_parsed 19358 ''A'' ''Squat'' None (Some 5) (Some 1) None) = None"
    by (simp add: mk_parsed_def)
  have c: "read_data parse_example csv_two_formats
     (Inr [mk_parsed 19359 ''A'' ''Squat'' (Some 100) (Some 5) (Some 1) None,
           mk_parsed 19359 ''A'' ''Squat'' (Some 100) (Some 5) (Some 1) None])" by code_simp
  from a b c show ?thesis by blast
qed

section \<open>Groups and series of plot\_metric\_over\_time\<close>

lemma comp_keys:
  "[f k g. (k, g) \<leftarrow> map (\<lambda>k. (k, G k)) keys, P k g] = map (\<lambda>k. f k (G k)) (filter (\<lambda>k. P k (G k)) keys)"
  by (induction keys) auto

lemma count_filter: "length (filter (\<lambda>r. c r = v) df) = count_list (map c df) v"
  by (induction df) auto

lemma popular_exercises_eq:
  "popular_exercises df m =
     filter (\<lambda>e. m \<le> int (count_list (map Exercise_Name df) (Some e)))
       (sort (remdups (dropna_col (map Exercise_Name df))))"
  unfolding popular_exercises_def groupby_Exercise_Name_def
  using comp_keys [where f = "\<lambda>k g. k" and G = "\<lambda>k. filter (\<lambda>r. Exercise_Name r = Some k) df"
      and P = "\<lambda>k g. m \<le> int (length g)"]
  by (simp add: count_filter)

lemma popular_groups_eq:
  "popular_groups df m =
     map (\<lambda>e. filter (\<lambda>r. Exercise_Name r = Some e) df) (popular_exercises df m)"
proof -
  let ?keys = "sort (remdups (dropna_col (map Exercise_Name df)))"
  let ?G = "\<lambda>k. filter (\<lambda>r. Exercise_Name r = Some k) df"
  have "popular_groups df m = map ?G (filter (\<lambda>k. k \<in> set (popular_exercises df m)) ?keys)"
    unfolding popular_groups_def groupby_Exercise_Name_def
    using comp_keys [where f = "\<lambda>k g. g" and G = ?G and keys = ?keys
        and P = "\<lambda>k g. k \<in> set (popular_exercises df m)"] by simp
  also have "filter (\<lambda>k. k \<in> set (popular_exercises df m)) ?keys = popular_exercises df m"
    by (simp add: popular_exercises_eq) (rule filter_cong, auto)
  finally show ?thesis .
qed



lemma set_last_x_days_filter: "set (last_x_days_filter d g) \<subseteq> set g"
  by (auto simp: last_x_days_filter_def split: option.splits)

lemma set_retained: "set (retained last_x_days g) \<subseteq> set g"
  using set_last_x_days_filter [of _ "dropna_Weight_Reps g"]
  by (auto simp: retained_def Let_def dropna_Weight_Reps_def split: option.splits if_splits)

lemma plot_group_InrD:
  assumes "plot_group lstsq metric_name metric_func last_x_days g = Inr fig"
  shows "\<exists>r rs p. retained last_x_days g = r # rs \<and>
           np_polyfit lstsq (map real_of_int (map fst (max_metric metric_func (retained last_x_days g))))
             (map snd (max_metric metric_func (retained last_x_days g))) = Inr p \<and>
           fig = \<lparr>lines =
                   [\<lparr>line_x = map fst (max_metric metric_func (retained last_x_days g)),
                     line_y = map snd (max_metric metric_func (retained last_x_days g)),
                     line_label = Some (fstr (Exercise_Name r) @ '' '' @ metric_name), line_color = None\<rparr>,
                    \<lparr>line_x = map fst (max_metric metric_func (retained last_x_days g)),
                     line_y = np_polyval p (map real_of_int (map fst (max_metric metric_func (retained last_x_days g)))),
                     line_label = None, line_color = Some ''red''\<rparr>],
                 title = fstr (Exercise_Name r) @ '' '' @ metric_name @ '' Over Time'',
                 xlabel = ''Date'', ylabel = metric_name\<rparr>"
  using assms by (auto simp: plot_group_def Let_def split: list.splits sum.splits)

lemma plot_group_title:
  assumes "plot_group lstsq metric_name metric_func last_x_days g = Inr fig"
    and "\<forall>r \<in> set g. Exercise_Name r = Some e"
  shows "title fig = e @ '' '' @ metric_name @ '' Over Time''"
proof -
  from plot_group_InrD [OF assms(1)] obtain r rs where
    ret: "retained last_x_days g = r # rs"
    and t: "title fig = fstr (Exercise_Name r) @ '' '' @ metric_name @ '' Over Time''"
    by auto
  from ret have "r \<in> set (retained last_x_days g)" by simp
  with set_retained have "r \<in> set g" by blast
  with assms(2) have "Exercise_Name r = Some e" by blast
  with t show ?thesis by (simp add: fstr_def)
qed

lemma plot_groups_titles:
  assumes "plot_groups lstsq metric_name metric_func last_x_days (map G es) = Inr figs"
    and "\<forall>e \<in> set es. \<forall>r \<in> set (G e). Exercise_Name r = Some e"
  shows "map title figs = map (\<lambda>e. e @ '' '' @ metric_name @ '' Over Time'') es"
  using assms
proof (induction es arbitrary: figs)
  case Nil
  then show ?case by simp
next
  case (Cons e es)
  from Cons.prems(1) obtain fig figs' where
    g: "plot_group lstsq metric_name metric_func last_x_days (G e) = Inr fig"
    and gs: "plot_groups lstsq metric_name metric_func last_x_days (map G es) = Inr figs'"
    and figs: "figs = fig # figs'"
    by (auto split: sum.splits)
  from Cons.prems(2) have "\<forall>r \<in> set (G e). Exercise_Name r = Some e" by simp
  from plot_group_title [OF g this] have t: "title fig = e @ '' '' @ metric_name @ '' Over Time''" .
  from Cons.prems(2) have "\<forall>e \<in> set es. \<forall>r \<in> set (G e). Exercise_Name r = Some e" by simp
  from Cons.IH [OF gs this] t figs show ?case by simp
qed

text \<open>
  Claim C1. The exercises kept by \<^verbatim>\<open>plot_metric_over_time\<close> are exactly the exercises of the
  input whose total number of rows (counted before rows with missing data are dropped) is at
  least \<^verbatim>\<open>min_exercises\<close>: this holds for the names selected, for the groups processed, and,
  when the call returns, for the figures produced (one per kept exercise, in name order).
\<close>

theorem popular_exercises_exact:
  "set (popular_exercises df min_exercises) =
     {e. Some e \<in> set (map Exercise_Name df) \<and>
         min_exercises \<le> int (count_list (map Exercise_Name df) (Some e))} \<and>
   popular_groups df min_exercises =
     map (\<lambda>e. filter (\<lambda>r. Exercise_Name r = Some e) df)
       (filter (\<lambda>e. min_exercises \<le> int (count_list (map Exercise_Name df) (Some e)))
          (sort (remdups (dropna_col (map Exercise_Name df))))) \<and>
   (plot_metric_over_time lstsq df' metric_name metric_func min_exercises last_x_days = Inr figs \<longrightarrow>
      map title figs =
        map (\<lambda>e. e @ '' '' @ metric_name @ '' Over Time'')
          (filter (\<lambda>e. min_exercises \<le> int (count_list (map Exercise_Name df') (Some e)))
             (sort (remdups (dropna_col (map Exercise_Name df'))))))"
proof -
  have a: "set (popular_exercises df min_exercises) =
     {e. Some e \<in> set (map Exercise_Name df) \<and>
         min_exercises \<le> int (count_list (map Exercise_Name df) (Some e))}"
    by (auto simp: popular_exercises_eq set_dropna_col)
  have b: "popular_groups df min_exercises =
     map (\<lambda>e. filter (\<lambda>r. Exercise_Name r = Some e) df)
       (filter (\<lambda>e. min_exercises \<le> int (count_list (map Exercise_Name df) (Some e)))
          (sort (remdups (dropna_col (map Exercise_Name df)))))"
    by (simp add: popular_groups_eq popular_exercises_eq)
  have c: "map title figs =
        map (\<lambda>e. e @ '' '' @ metric_name @ '' Over Time'')
          (filter (\<lambda>e. min_exercises \<le> int (count_list (map Exercise_Name df') (Some e)))
             (sort (remdups (dropna_col (map Exercise_Name df')))))"
    if "plot_metric_over_time lstsq df' metric_name metric_func min_exercises last_x_days = Inr figs"
  proof -
    from that have "plot_groups lstsq metric_name metric_func last_x_days
        (map (\<lambda>e. filter (\<lambda>r. Exercise_Name r = Some e) df') (popular_exercises df' min_exercises)) = Inr figs"
      by (simp add: plot_metric_over_time_def popular_groups_eq)
    from plot_groups_titles [OF this] show ?thesis by (simp add: popular_exercises_eq)
  qed
  from a b c show ?thesis by blast
qed

theorem popular_exercises_exact_witness:
  "count_list (map Exercise_Name squat_curl_df) (Some ''Squat'') = 12 \<and>
   count_list (map Exercise_Name squat_curl_df) (Some ''Curl'') = 2 \<and>
   sort (remdups (dropna_col (map Exercise_Name squat_curl_df))) = [''Curl'', ''Squat''] \<and>
   popular_exercises squat_curl_df 10 = [''Squat''] \<and>
   map_sum id (map title) (plot_metric_over_time lstsq_example squat_curl_df ''1RM'' calc_one_rep_max 10 None) =
     Inr [''Squat 1RM Over Time'']"
proof -
  have s: "count_list (map Exercise_Name squat_curl_df) (Some ''Squat'') = 12" by code_simp
  have c: "count_list (map Exercise_Name squat_curl_df) (Some ''Curl'') = 2" by code_simp
  have k: "sort (remdups (dropna_col (map Exercise_Name squat_curl_df))) = [''Curl'', ''Squat'']"
    by code_simp
  have "isl (plot_metric_over_time lstsq_example squat_curl_df ''1RM'' calc_one_rep_max 10 None) = False"
    by code_simp
  then obtain figs where
    run: "plot_metric_over_time lstsq_example squat_curl_df ''1RM'' calc_one_rep_max 10 None = Inr figs"
    by (cases "plot_metric_over_time lstsq_example squat_curl_df ''1RM'' calc_one_rep_max 10 None") auto
  note inst = popular_exercises_exact [of squat_curl_df 10 lstsq_example squat_curl_df "''1RM''"
      calc_one_rep_max None figs]
  from inst run s c k have t: "map title figs = [''Squat 1RM Over Time'']" by simp
  have p: "popular_exercises squat_curl_df 10 = [''Squat'']" by code_simp
  from s c k p run t show ?thesis by simp
qed










section \<open>The fit line\<close>

lemma max_metric_Nil_retained: "max_metric metric_func [] = []"
  by (simp add: max_metric_def groupby_Date_max_def)

lemma plot_group_pyplot_result:
  "plot_group lstsq metric_name metric_func last_x_days grp0 =
     (case plot_group_pyplot lstsq metric_name metric_func last_x_days grp0 of
        (fig, None) \<Rightarrow> Inr fig
      | (fig, Some e) \<Rightarrow> Inl e)"
  by (simp add: plot_group_def plot_group_pyplot_def Let_def split: list.splits sum.splits)

text \<open>
  Claim C8, amended. The code has no degenerate case for the fit. When the body of the loop
  raises nothing, the figure of the group has two lines: the series and, in red, the values of
  the degree-1 fit at the dates of the series. When it raises, the figure has at most the series
  line and no fit line. For a series with exactly one point the solver is still called on that
  point: the figure gets both lines, or the failure of the solver is raised after the series was
  drawn. A series with no point always raises: \<open>IndexError\<close> when the group has no rows left
  (its figure stays empty), \<open>TypeError\<close> from \<^verbatim>\<open>np.polyfit\<close> when the group has rows but none
  with a date (its figure holds the empty series line and no fit line).
\<close>

theorem fit_line_never_skipped:
  "plot_group lstsq metric_name metric_func last_x_days grp0 =
     (case plot_group_pyplot lstsq metric_name metric_func last_x_days grp0 of
        (fg, None) \<Rightarrow> Inr fg
      | (fg, Some e) \<Rightarrow> Inl e) \<and>
   (plot_group_pyplot lstsq metric_name metric_func last_x_days grp0 = (fig, None) \<longrightarrow>
      length (lines fig) = 2 \<and>
      line_color (lines fig ! 1) = Some ''red'' \<and>
      line_x (lines fig ! 1) = map fst (max_metric metric_func (retained last_x_days grp0)) \<and>
      (\<exists>p. lstsq (map real_of_int (map fst (max_metric metric_func (retained last_x_days grp0))))
               (map snd (max_metric metric_func (retained last_x_days grp0))) = Inr p \<and>
           line_y (lines fig ! 1) =
             np_polyval p (map real_of_int (map fst (max_metric metric_func (retained last_x_days grp0)))))) \<and>
   (plot_group_pyplot lstsq metric_name metric_func last_x_days grp0 = (fig, Some e) \<longrightarrow>
      length (lines fig) \<le> 1 \<and> list_all (\<lambda>l. line_color l = None) (lines fig)) \<and>
   (max_metric metric_func (retained last_x_days grp0) = [(d, v)] \<longrightarrow>
      (case lstsq [real_of_int d] [v] of
         Inl e \<Rightarrow> plot_group lstsq metric_name metric_func last_x_days grp0 = Inl e \<and>
                  snd (plot_group_pyplot lstsq metric_name metric_func last_x_days grp0) = Some e \<and>
                  map line_x (lines (fst (plot_group_pyplot lstsq metric_name metric_func last_x_days grp0))) = [[d]]
       | Inr p \<Rightarrow> (\<exists>fg. plot_group lstsq metric_name metric_func last_x_days grp0 = Inr fg \<and>
                      plot_group_pyplot lstsq metric_name metric_func last_x_days grp0 = (fg, None) \<and>
                      length (lines fg) = 2 \<and> line_x (lines fg ! 1) = [d] \<and>
                      line_y (lines fg ! 1) = np_polyval p [real_of_int d]))) \<and>
   (retained last_x_days grp0 = [] \<longrightarrow>
      plot_group lstsq metric_name metric_func last_x_days grp0 = Inl IndexError \<and>
      plot_group_pyplot lstsq metric_name metric_func last_x_days grp0 = (empty_figure, Some IndexError)) \<and>
   (retained last_x_days grp0 \<noteq> [] \<and> max_metric metric_func (retained last_x_days grp0) = [] \<longrightarrow>
      plot_group lstsq metric_name metric_func last_x_days grp0 = Inl TypeError \<and>
      snd (plot_group_pyplot lstsq metric_name metric_func last_x_days grp0) = Some TypeError \<and>
      map line_x (lines (fst (plot_group_pyplot lstsq metric_name metric_func last_x_days grp0))) = [[]] \<and>
      map line_color (lines (fst (plot_group_pyplot lstsq metric_name metric_func last_x_days grp0))) = [None])"
proof -
  let ?grp = "retained last_x_days grp0"
  let ?mm = "max_metric metric_func ?grp"
  let ?py = "plot_group_pyplot lstsq metric_name metric_func last_x_days grp0"
  let ?pg = "plot_group lstsq metric_name metric_func last_x_days grp0"
  note r = plot_group_pyplot_result [of lstsq metric_name metric_func last_x_days grp0]
  have a: "length (lines fig) = 2 \<and>
      line_color (lines fig ! 1) = Some ''red'' \<and>
      line_x (lines fig ! 1) = map fst ?mm \<and>
      (\<exists>p. lstsq (map real_of_int (map fst ?mm)) (map snd ?mm) = Inr p \<and>
           line_y (lines fig ! 1) = np_polyval p (map real_of_int (map fst ?mm)))"
    if "?py = (fig, None)"
    using that
    by (auto simp: plot_group_pyplot_def Let_def np_polyfit_def split: list.splits sum.splits if_splits)
  have a': "length (lines fig) \<le> 1 \<and> list_all (\<lambda>l. line_color l = None) (lines fig)"
    if "?py = (fig, Some e)"
    using that
    by (auto simp: plot_group_pyplot_def Let_def empty_figure_def split: list.splits sum.splits)
  have b: "case lstsq [real_of_int d] [v] of
         Inl e \<Rightarrow> ?pg = Inl e \<and> snd ?py = Some e \<and> map line_x (lines (fst ?py)) = [[d]]
       | Inr p \<Rightarrow> (\<exists>fg. ?pg = Inr fg \<and> ?py = (fg, None) \<and>
                      length (lines fg) = 2 \<and> line_x (lines fg ! 1) = [d] \<and>
                      line_y (lines fg ! 1) = np_polyval p [real_of_int d])"
    if mm: "?mm = [(d, v)]"
  proof -
    have "?grp \<noteq> []" using mm max_metric_Nil_retained [of metric_func] by auto
    then obtain r rs where g: "?grp = r # rs" by (cases ?grp) auto
    show ?thesis
      using g mm
      by (simp add: plot_group_def plot_group_pyplot_def Let_def np_polyfit_def empty_figure_def
          split: sum.splits)
  qed
  have c: "?pg = Inl IndexError \<and> ?py = (empty_figure, Some IndexError)" if "?grp = []"
    using that by (simp add: plot_group_def plot_group_pyplot_def Let_def)
  have d: "?pg = Inl TypeError \<and> snd ?py = Some TypeError \<and>
      map line_x (lines (fst ?py)) = [[]] \<and> map line_color (lines (fst ?py)) = [None]"
    if "?grp \<noteq> [] \<and> ?mm = []"
  proof -
    from that obtain r rs where g: "?grp = r # rs" by (cases ?grp) auto
    from that have mm: "?mm = []" by simp
    show ?thesis
      using g mm
      by (simp add: plot_group_def plot_group_pyplot_def Let_def np_polyfit_def empty_figure_def)
  qed
  from r a a' b c d show ?thesis by blast
qed

theorem fit_line_never_skipped_witness:
  "plot_group_pyplot lstsq_example ''1RM'' calc_one_rep_max None one_point_df = (one_point_fig, None) \<and>
   plot_group lstsq_example ''1RM'' calc_one_rep_max None one_point_df = Inr one_point_fig \<and>
   max_metric calc_one_rep_max (retained None one_point_df) = [(10, Some (2333 / 20))] \<and>
   lstsq_example [10] [Some (2333 / 20)] = Inr (Some 0, Some (2333 / 20)) \<and>
   length (lines one_point_fig) = 2 \<and>
   line_color (lines one_point_fig ! 1) = Some ''red'' \<and>
   line_y (lines one_point_fig ! 1) = np_polyval (Some 0, Some (2333 / 20)) [10] \<and>
   retained None no_weight_df = [] \<and>
   plot_group lstsq_example ''1RM'' calc_one_rep_max None no_weight_df = Inl IndexError \<and>
   plot_group_pyplot lstsq_example ''1RM'' calc_one_rep_max None no_weight_df =
     (empty_figure, Some IndexError) \<and>
   length (lines empty_figure) \<le> 1 \<and>
   retained None no_date_df = no_date_df \<and>
   max_metric calc_one_rep_max (retained None no_date_df) = [] \<and>
   plot_group lstsq_example ''1RM'' calc_one_rep_max None no_date_df = Inl TypeError \<and>
   snd (plot_group_pyplot lstsq_example ''1RM'' calc_one_rep_max None no_date_df) = Some TypeError \<and>
   map line_x (lines (fst (plot_group_pyplot lstsq_example ''1RM'' calc_one_rep_max None no_date_df))) = [[]]"
proof -
  have py: "plot_group_pyplot lstsq_example ''1RM'' calc_one_rep_max None one_point_df = (one_point_fig, None)"
    by code_simp
  have mm: "max_metric calc_one_rep_max (retained None one_point_df) = [(10, Some (2333 / 20))]"
    by code_simp
  have ls: "lstsq_example [10] [Some (2333 / 20)] = Inr (Some 0, Some (2333 / 20))"
    by code_simp
  have rw: "retained None no_weight_df = []" by code_simp
  have rd: "retained None no_date_df = no_date_df" by code_simp
  have nd: "no_date_df \<noteq> []" by (simp add: no_date_df_def)
  have md: "max_metric calc_one_rep_max (retained None no_date_df) = []" by code_simp
  note one = fit_line_never_skipped [of lstsq_example "''1RM''" calc_one_rep_max None one_point_df
      one_point_fig IndexError 10 "Some (2333 / 20)"]
  note noweight = fit_line_never_skipped [of lstsq_example "''1RM''" calc_one_rep_max None no_weight_df
      empty_figure IndexError]
  note nodate = fit_line_never_skipped [of lstsq_example "''1RM''" calc_one_rep_max None no_date_df]
  from one py have run: "plot_group lstsq_example ''1RM'' calc_one_rep_max None one_point_df = Inr one_point_fig"
    by simp
  from one py have l: "length (lines one_point_fig) = 2"
    and c: "line_color (lines one_point_fig ! 1) = Some ''red''" by blast+
  from one mm ls py have y: "line_y (lines one_point_fig ! 1) = np_polyval (Some 0, Some (2333 / 20)) [10]"
    by auto
  from noweight rw have iw: "plot_group lstsq_example ''1RM'' calc_one_rep_max None no_weight_df = Inl IndexError"
    and pw: "plot_group_pyplot lstsq_example ''1RM'' calc_one_rep_max None no_weight_df =
     (empty_figure, Some IndexError)" by blast+
  from noweight pw have le: "length (lines empty_figure) \<le> 1" by blast
  from rd nd md have hd: "retained None no_date_df \<noteq> [] \<and>
      max_metric calc_one_rep_max (retained None no_date_df) = []" by simp
  from nodate hd
  have td: "plot_group lstsq_example ''1RM'' calc_one_rep_max None no_date_df = Inl TypeError"
    and sd: "snd (plot_group_pyplot lstsq_example ''1RM'' calc_one_rep_max None no_date_df) = Some TypeError"
    and xd: "map line_x (lines (fst (plot_group_pyplot lstsq_example ''1RM'' calc_one_rep_max None no_date_df))) = [[]]"
    by blast+
  from py run mm ls l c y rw iw pw le rd md td sd xd show ?thesis by blast
qed

text \<open>
  The claim C8 as stated fails: for a group with one date the figure has the red fit line,
  drawn over that single date, and for a group whose only row has no weight the call raises
  \<open>IndexError\<close>.
\<close>

theorem fit_line_skipped_counterexample:
  "plot_group lstsq_example ''1RM'' calc_one_rep_max None one_point_df = Inr one_point_fig \<and>
   map line_x (lines one_point_fig) = [[10], [10]] \<and>
   map line_color (lines one_point_fig) = [None, Some ''red''] \<and>
   plot_metric_over_time lstsq_example one_point_df ''1RM'' calc_one_rep_max 0 None = Inr [one_point_fig] \<and>
   plot_metric_over_time lstsq_example no_weight_df ''1RM'' calc_one_rep_max 0 None = Inl IndexError"
proof -
  have a: "plot_group lstsq_example ''1RM'' calc_one_rep_max None one_point_df = Inr one_point_fig"
    by code_simp
  have b: "map line_x (lines one_point_fig) = [[10], [10]]"
    and c: "map line_color (lines one_point_fig) = [None, Some ''red'']"
    by (simp_all add: one_point_fig_def)
  have d: "plot_metric_over_time lstsq_example one_point_df ''1RM'' calc_one_rep_max 0 None = Inr [one_point_fig]"
    by code_simp
  have e: "plot_metric_over_time lstsq_example no_weight_df ''1RM'' calc_one_rep_max 0 None = Inl IndexError"
    by code_simp
  from a b c d e show ?thesis by blast
qed

section \<open>Properties of plot\_workouts\_per\_week\<close>

lemma week_end_mod: "week_end d mod 7 = 3"
  unfolding week_end_def by presburger

lemma week_end_ge: "d \<le> week_end d"
  unfolding week_end_def by simp

lemma week_end_le: "week_end d \<le> d + 6"
proof -
  have "(3 - d) mod 7 < 7" by simp
  then show ?thesis unfolding week_end_def by linarith
qed

lemma week_end_mono: "a \<le> b \<Longrightarrow> week_end a \<le> week_end b"
  unfolding week_end_def by presburger

lemma week_end_shift: "week_end (d - 7 * n) = week_end d - 7 * n"
proof -
  have "(3 - (d - 7 * n)) mod 7 = (3 - d + n * 7) mod 7" by (simp add: algebra_simps)
  also have "\<dots> = (3 - d) mod 7" by (rule mod_mult_self1)
  finally show ?thesis by (simp add: week_end_def)
qed

lemma same_week:
  fixes x w t :: int
  assumes "x mod 7 = 3" "w mod 7 = 3" "t \<le> x" "x \<le> t + 6" "w - 6 \<le> t" "t \<le> w"
  shows "x = w"
proof -
  from assms(1,2) have "(x - w) mod 7 = 0" by (simp add: mod_diff_eq [symmetric])
  then obtain k where k: "x - w = 7 * k" by (auto simp: mod_eq_0_iff_dvd)
  from assms(3-6) have "- 6 \<le> x - w" "x - w \<le> 6" by linarith+
  with k have "k = 0" by linarith
  with k show ?thesis by simp
qed

lemma week_end_eq_iff: "week_end t = w \<longleftrightarrow> w mod 7 = 3 \<and> w - 6 \<le> t \<and> t \<le> w"
  using week_end_mod [of t] week_end_ge [of t] week_end_le [of t] same_week [of "week_end t" w t]
  by auto

lemma nunique_card: "nunique col = card {x. Some x \<in> set col}"
  by (simp add: nunique_def length_remdups_card_conv set_dropna_col)



lemma skipna_bounds:
  assumes "dropna_col col \<noteq> []"
  shows "\<exists>lo hi. min_skipna col = Some lo \<and> max_skipna col = Some hi \<and>
           Some lo \<in> set col \<and> Some hi \<in> set col \<and> (\<forall>x. Some x \<in> set col \<longrightarrow> lo \<le> x \<and> x \<le> hi)"
proof -
  let ?D = "set (dropna_col col)"
  from assms have ne: "?D \<noteq> {}" and fin: "finite ?D" by simp_all
  have lo: "min_skipna col = Some (Min ?D)" and hi: "max_skipna col = Some (Max ?D)"
    using assms by (simp_all add: min_skipna_def max_skipna_def split: list.splits)
  have "Min ?D \<in> ?D" "Max ?D \<in> ?D" using ne fin by (simp_all add: Min_in Max_in)
  then have mem: "Some (Min ?D) \<in> set col" "Some (Max ?D) \<in> set col"
    by (simp_all add: set_dropna_col)
  have "Min ?D \<le> x \<and> x \<le> Max ?D" if "Some x \<in> set col" for x
  proof -
    from that have "x \<in> ?D" by (simp add: set_dropna_col)
    then show ?thesis using fin by (simp add: Min_le Max_ge)
  qed
  with lo hi mem show ?thesis by blast
qed

lemma skipna_None:
  "dropna_col col = [] \<Longrightarrow> max_skipna col = None \<and> min_skipna col = None"
  by (simp add: min_skipna_def max_skipna_def)

lemma df_last_x_weeks_window:
  assumes "max_skipna (map Date df) = Some end_date"
  shows "df_last_x_weeks df n =
           filter (\<lambda>r. \<exists>t. Date r = Some t \<and> end_date - 7 * n \<le> t \<and> t \<le> end_date) df"
  using assms by (auto simp: df_last_x_weeks_def intro!: filter_cong split: option.splits)

lemma groupby_week_nunique_buckets:
  assumes win: "\<forall>r \<in> set W. \<forall>t. Date r = Some t \<longrightarrow> a \<le> t \<and> t \<le> b"
    and n: "b - a = 7 * n" "0 \<le> n"
  shows "int (length (groupby_week_nunique W)) \<le> n + 1"
    and "\<forall>(w, c) \<in> set (groupby_week_nunique W).
           w mod 7 = 3 \<and> a \<le> w \<and> w \<le> b + 6 \<and>
           c = card {name. \<exists>r \<in> set W. \<exists>t. Workout_Name r = Some name \<and> Date r = Some t \<and> w - 6 \<le> t \<and> t \<le> w}"
    and "sorted (map fst (groupby_week_nunique W)) \<and> distinct (map fst (groupby_week_nunique W))"
proof -
  show "int (length (groupby_week_nunique W)) \<le> n + 1"
  proof (cases "dropna_col (map Date W) = []")
    case True
    then show ?thesis using n by (simp add: groupby_week_nunique_def skipna_None)
  next
    case False
    from skipna_bounds [OF False] obtain lo hi where
      lo: "min_skipna (map Date W) = Some lo" and hi: "max_skipna (map Date W) = Some hi"
      and lom: "Some lo \<in> set (map Date W)" and him: "Some hi \<in> set (map Date W)"
      by blast
    from lom win have "a \<le> lo" by auto
    moreover from him win have "hi \<le> b" by auto
    ultimately have "week_end hi - week_end lo \<le> week_end b - week_end a"
      using week_end_mono [of hi b] week_end_mono [of a lo] by linarith
    also have "week_end a = week_end b - 7 * n"
      using week_end_shift [of b n] n(1) by (simp add: algebra_simps)
    finally have "week_end hi - week_end lo \<le> 7 * n" by simp
    then have "(week_end hi - week_end lo) div 7 \<le> n" by linarith
    then show ?thesis using n lo hi by (simp add: groupby_week_nunique_def)
  qed
next
  show "\<forall>(w, c) \<in> set (groupby_week_nunique W).
           w mod 7 = 3 \<and> a \<le> w \<and> w \<le> b + 6 \<and>
           c = card {name. \<exists>r \<in> set W. \<exists>t. Workout_Name r = Some name \<and> Date r = Some t \<and> w - 6 \<le> t \<and> t \<le> w}"
  proof (cases "dropna_col (map Date W) = []")
    case True
    then show ?thesis by (simp add: groupby_week_nunique_def skipna_None)
  next
    case False
    from skipna_bounds [OF False] obtain lo hi where
      lo: "min_skipna (map Date W) = Some lo" and hi: "max_skipna (map Date W) = Some hi"
      and lom: "Some lo \<in> set (map Date W)" and him: "Some hi \<in> set (map Date W)"
      and all: "\<forall>x. Some x \<in> set (map Date W) \<longrightarrow> lo \<le> x \<and> x \<le> hi"
      by blast
    from lom win have alo: "a \<le> lo" by auto
    from him win have hib: "hi \<le> b" by auto
    from all lom have lohi: "lo \<le> hi" by blast
    have "w mod 7 = 3 \<and> a \<le> w \<and> w \<le> b + 6 \<and>
           c = card {name. \<exists>r \<in> set W. \<exists>t. Workout_Name r = Some name \<and> Date r = Some t \<and> w - 6 \<le> t \<and> t \<le> w}"
      if "(w, c) \<in> set (groupby_week_nunique W)" for w c
    proof -
      have g: "groupby_week_nunique W =
          map (\<lambda>k. (week_end lo + 7 * int k,
                    nunique [Workout_Name r. r \<leftarrow> W, map_option week_end (Date r) = Some (week_end lo + 7 * int k)]))
            [0 ..< nat ((week_end hi - week_end lo) div 7) + 1]"
        unfolding groupby_week_nunique_def lo hi by (simp only: prod.case option.case)
      from that obtain k where "k \<in> set [0 ..< nat ((week_end hi - week_end lo) div 7) + 1]"
        and wc: "(w, c) = (week_end lo + 7 * int k,
                    nunique [Workout_Name r. r \<leftarrow> W, map_option week_end (Date r) = Some (week_end lo + 7 * int k)])"
        unfolding g set_map by blast
      then have k: "k < nat ((week_end hi - week_end lo) div 7) + 1" by (simp del: upt_Suc)
      from wc have w: "w = week_end lo + 7 * int k"
        and c: "c = nunique [Workout_Name r. r \<leftarrow> W, map_option week_end (Date r) = Some w]"
        by simp_all
      have m: "w mod 7 = 3" using week_end_mod [of lo] w by presburger
      have "week_end lo \<le> week_end hi" using lohi by (rule week_end_mono)
      with k have "7 * int k \<le> week_end hi - week_end lo" by linarith
      with w have wle: "w \<le> week_end hi" by simp
      have "a \<le> w" using alo week_end_ge [of lo] w by linarith
      moreover have "w \<le> b + 6" using wle week_end_le [of hi] hib by linarith
      moreover have "c = card {name. \<exists>r \<in> set W. \<exists>t. Workout_Name r = Some name \<and> Date r = Some t \<and> w - 6 \<le> t \<and> t \<le> w}"
      proof -
        have "{x. Some x \<in> set [Workout_Name r. r \<leftarrow> W, map_option week_end (Date r) = Some w]} =
              {name. \<exists>r \<in> set W. \<exists>t. Workout_Name r = Some name \<and> Date r = Some t \<and> w - 6 \<le> t \<and> t \<le> w}"
          using m by (auto simp: week_end_eq_iff) force
        then show ?thesis by (simp add: c nunique_card)
      qed
      ultimately show ?thesis using m by simp
    qed
    then show ?thesis by blast
  qed
next
  show "sorted (map fst (groupby_week_nunique W)) \<and> distinct (map fst (groupby_week_nunique W))"
  proof (cases "dropna_col (map Date W) = []")
    case True
    then show ?thesis by (simp add: groupby_week_nunique_def skipna_None)
  next
    case False
    from skipna_bounds [OF False] obtain lo hi where
      lo: "min_skipna (map Date W) = Some lo" and hi: "max_skipna (map Date W) = Some hi"
      by blast
    have "map fst (groupby_week_nunique W) =
            map (\<lambda>k. week_end lo + 7 * int k) [0 ..< nat ((week_end hi - week_end lo) div 7) + 1]"
      using lo hi by (simp add: groupby_week_nunique_def comp_def del: upt_Suc)
    moreover have "sorted (map (\<lambda>k. week_end lo + 7 * int k) [0 ..< m])" for m
      by (simp add: sorted_iff_nth_mono del: upt_Suc)
    moreover have "distinct (map (\<lambda>k. week_end lo + 7 * int k) [0 ..< m])" for m
      by (simp add: distinct_map inj_on_def del: upt_Suc)
    ultimately show ?thesis by metis
  qed
qed


text \<open>
  Claim C7, amended. For \<^verbatim>\<open>last_x_weeks > 0\<close> and \<open>end_date\<close> the latest date of the records,
  \<^verbatim>\<open>plot_workouts_per_week\<close> keeps the records dated in the inclusive window from
  \<open>end_date - last_x_weeks\<close> weeks to \<open>end_date\<close> and groups them by week. It produces at most
  \<open>last_x_weeks + 1\<close> buckets, in ascending order. Every bucket is labelled by a Sunday \<open>w\<close>
  between the start of the window and six days after \<open>end_date\<close>, and its count is the number
  of distinct workout names among the records of the window dated in the seven days ending on
  \<open>w\<close>.
\<close>

theorem plot_workouts_per_week_window:
  assumes "0 < last_x_weeks" and "max_skipna (map Date df) = Some end_date"
  shows "df_last_x_weeks df last_x_weeks =
           filter (\<lambda>r. \<exists>t. Date r = Some t \<and> end_date - 7 * last_x_weeks \<le> t \<and> t \<le> end_date) df \<and>
         plot_workouts_per_week df last_x_weeks = groupby_week_nunique (df_last_x_weeks df last_x_weeks) \<and>
         int (length (plot_workouts_per_week df last_x_weeks)) \<le> last_x_weeks + 1 \<and>
         sorted (map fst (plot_workouts_per_week df last_x_weeks)) \<and>
         distinct (map fst (plot_workouts_per_week df last_x_weeks)) \<and>
         (\<forall>(w, c) \<in> set (plot_workouts_per_week df last_x_weeks).
            w mod 7 = 3 \<and> end_date - 7 * last_x_weeks \<le> w \<and> w \<le> end_date + 6 \<and>
            c = card {name. \<exists>r \<in> set df. \<exists>t. Workout_Name r = Some name \<and> Date r = Some t \<and>
                       end_date - 7 * last_x_weeks \<le> t \<and> t \<le> end_date \<and> w - 6 \<le> t \<and> t \<le> w})"
proof -
  let ?a = "end_date - 7 * last_x_weeks"
  let ?W = "df_last_x_weeks df last_x_weeks"
  have W: "?W = filter (\<lambda>r. \<exists>t. Date r = Some t \<and> ?a \<le> t \<and> t \<le> end_date) df"
    using assms(2) by (rule df_last_x_weeks_window)
  have win: "\<forall>r \<in> set ?W. \<forall>t. Date r = Some t \<longrightarrow> ?a \<le> t \<and> t \<le> end_date"
    unfolding W by auto
  have n: "end_date - ?a = 7 * last_x_weeks" "0 \<le> last_x_weeks" using assms(1) by simp_all
  note b = groupby_week_nunique_buckets [OF win n]
  have sets: "{name. \<exists>r \<in> set ?W. \<exists>t. Workout_Name r = Some name \<and> Date r = Some t \<and> w - 6 \<le> t \<and> t \<le> w} =
      {name. \<exists>r \<in> set df. \<exists>t. Workout_Name r = Some name \<and> Date r = Some t \<and>
                       ?a \<le> t \<and> t \<le> end_date \<and> w - 6 \<le> t \<and> t \<le> w}" for w
    unfolding W by auto
  have c: "\<forall>(w, c) \<in> set (plot_workouts_per_week df last_x_weeks).
            w mod 7 = 3 \<and> ?a \<le> w \<and> w \<le> end_date + 6 \<and>
            c = card {name. \<exists>r \<in> set df. \<exists>t. Workout_Name r = Some name \<and> Date r = Some t \<and>
                       ?a \<le> t \<and> t \<le> end_date \<and> w - 6 \<le> t \<and> t \<le> w}"
    using b(2) unfolding plot_workouts_per_week_def sets by simp
  from W b(1) b(3) c show ?thesis by (simp add: plot_workouts_per_week_def)
qed

theorem plot_workouts_per_week_window_witness:
  "(0::int) < 5 \<and> max_skipna (map Date weekly_df) = Some 70 \<and>
   map Date (df_last_x_weeks weekly_df 5) = [Some 35, Some 42, Some 49, Some 56, Some 63, Some 70] \<and>
   plot_workouts_per_week weekly_df 5 = [(38, 1), (45, 1), (52, 1), (59, 1), (66, 1), (73, 1)] \<and>
   int (length (plot_workouts_per_week weekly_df 5)) \<le> 5 + 1"
proof -
  have m: "max_skipna (map Date weekly_df) = Some 70" by code_simp
  have w: "map Date (df_last_x_weeks weekly_df 5) = [Some 35, Some 42, Some 49, Some 56, Some 63, Some 70]"
    by code_simp
  have r: "plot_workouts_per_week weekly_df 5 = [(38, 1), (45, 1), (52, 1), (59, 1), (66, 1), (73, 1)]"
    by code_simp
  have p: "(0::int) < 5" by simp
  from plot_workouts_per_week_window [OF p m]
  have "int (length (plot_workouts_per_week weekly_df 5)) \<le> 5 + 1" by blast
  with p m w r show ?thesis by blast
qed

text \<open>
  The claim C7 as stated fails: records spanning ten weeks (days 0 to 70) with
  \<^verbatim>\<open>last_x_weeks = 5\<close> give six buckets, not at most five, and the last bucket is labelled
  day 73, after the end of the window (day 70).
\<close>

theorem plot_workouts_per_week_buckets_counterexample:
  "min_skipna (map Date weekly_df) = Some 0 \<and> max_skipna (map Date weekly_df) = Some 70 \<and>
   plot_workouts_per_week weekly_df 5 = [(38, 1), (45, 1), (52, 1), (59, 1), (66, 1), (73, 1)] \<and>
   length (plot_workouts_per_week weekly_df 5) = 6 \<and>
   fst (last (plot_workouts_per_week weekly_df 5)) = 73"
proof -
  have a: "min_skipna (map Date weekly_df) = Some 0" by code_simp
  have b: "max_skipna (map Date weekly_df) = Some 70" by code_simp
  have r: "plot_workouts_per_week weekly_df 5 = [(38, 1), (45, 1), (52, 1), (59, 1), (66, 1), (73, 1)]"
    by code_simp
  from a b r show ?thesis by simp
qed

end
